theory Spec2Isabelle
  imports Complex_Main "HOL-Library.Char_ord" "HOL-Library.List_Lexorder"
begin

section \<open>Python values, errors and strings\<close>

text \<open>
  The development embeds \<^verbatim>\<open>event_engine.py\<close> and the administrative operation
  \<^verbatim>\<open>delete_event\<close> of \<^verbatim>\<open>app.py\<close>. A Python \<^verbatim>\<open>str\<close> is a \<^typ>\<open>string\<close> whose
  characters are the code points below 256; every raise of the source is an \<open>Inl\<close>
  of the result, every normal return an \<open>Inr\<close>.
\<close>

datatype pyerr =
    ValueError | IndexError | KeyError | TypeError | AttributeError
  | FileNotFoundError | IsADirectoryError | NotADirectoryError | RuntimeError
  | HandlerError string

definition ebind :: "'e + 'a \<Rightarrow> ('a \<Rightarrow> 'e + 'b) \<Rightarrow> 'e + 'b" where
  "ebind r f = (case r of Inl e \<Rightarrow> Inl e | Inr x \<Rightarrow> f x)"

text \<open>What \<^verbatim>\<open>yaml.safe_load\<close> returns: null, booleans, integers, strings, sequences, mappings.\<close>

datatype yaml =
    YNull | YBool bool | YInt int | YStr string
  | YList "yaml list" | YDict "(yaml \<times> yaml) list"

definition py_truthy :: "yaml \<Rightarrow> bool" where
  "py_truthy v = (case v of YNull \<Rightarrow> False | YBool b \<Rightarrow> b | YInt n \<Rightarrow> n \<noteq> 0
     | YStr s \<Rightarrow> s \<noteq> [] | YList xs \<Rightarrow> xs \<noteq> [] | YDict kvs \<Rightarrow> kvs \<noteq> [])"

text \<open>\<^verbatim>\<open>str.isspace\<close> and \<^verbatim>\<open>str.isdecimal\<close> on the code points below 256.\<close>

definition is_space :: "char \<Rightarrow> bool" where
  "is_space c = (c \<in> set [CHR 0x09, CHR 0x0A, CHR 0x0B, CHR 0x0C, CHR 0x0D, CHR 0x1C,
     CHR 0x1D, CHR 0x1E, CHR 0x1F, CHR 0x20, CHR 0x85, CHR 0xA0])"

definition is_digit :: "char \<Rightarrow> bool" where
  "is_digit c = (c \<in> set ''0123456789'')"

definition digit_val :: "char \<Rightarrow> nat" where
  "digit_val c = of_char c - 48"

definition digit_char :: "nat \<Rightarrow> char" where
  "digit_char k = char_of (48 + k)"

definition to_lower :: "char \<Rightarrow> char" where
  "to_lower c = (if c \<in> set ''ABCDEFGHIJKLMNOPQRSTUVWXYZ'' then char_of (of_char c + (32::nat)) else c)"

definition lower :: "string \<Rightarrow> string" where
  "lower s = map to_lower s"

definition strip :: "string \<Rightarrow> string" where
  "strip s = rev (dropWhile is_space (rev (dropWhile is_space s)))"

text \<open>\<^verbatim>\<open>s.split()\<close>: the maximal runs of non-whitespace characters.\<close>

fun split_ws_aux :: "string \<Rightarrow> string \<Rightarrow> string list" where
  "split_ws_aux [] cur = (if cur = [] then [] else [cur])"
| "split_ws_aux (c # cs) cur =
     (if is_space c then (if cur = [] then split_ws_aux cs [] else cur # split_ws_aux cs [])
      else split_ws_aux cs (cur @ [c]))"

definition split_ws :: "string \<Rightarrow> string list" where
  "split_ws s = split_ws_aux s []"

text \<open>\<^verbatim>\<open>s.split(sep)\<close> for a one-character separator: never empty.\<close>

fun split_on :: "char \<Rightarrow> string \<Rightarrow> string list" where
  "split_on sep [] = [[]]"
| "split_on sep (c # cs) =
     (if c = sep then [] # split_on sep cs
      else (case split_on sep cs of p # ps \<Rightarrow> (c # p) # ps | [] \<Rightarrow> [[c]]))"

text \<open>\<^verbatim>\<open>s.split(sep, 1)\<close> when \<open>sep\<close> occurs in \<open>s\<close>: the text before and after its first occurrence.\<close>

definition split1 :: "char \<Rightarrow> string \<Rightarrow> string \<times> string" where
  "split1 sep s = (takeWhile (\<lambda>c. c \<noteq> sep) s, tl (dropWhile (\<lambda>c. c \<noteq> sep) s))"

text \<open>
  \<^verbatim>\<open>int(s)\<close>: surrounding whitespace is dropped, one sign is allowed, then decimal
  digits, with single underscores between digits; anything else is a ValueError.
  The result is unbounded.
\<close>

fun int_body :: "string \<Rightarrow> nat \<Rightarrow> nat option" where
  "int_body [] acc = Some acc"
| "int_body (c # cs) acc =
     (if is_digit c then int_body cs (acc * 10 + digit_val c)
      else if c = CHR ''_'' \<and> cs \<noteq> [] \<and> is_digit (hd cs) then int_body cs acc
      else None)"

definition int_unsigned :: "string \<Rightarrow> pyerr + int" where
  "int_unsigned s =
     (case s of [] \<Rightarrow> Inl ValueError
      | c # cs \<Rightarrow> if is_digit c
          then (case int_body s 0 of None \<Rightarrow> Inl ValueError | Some n \<Rightarrow> Inr (int n))
          else Inl ValueError)"

definition py_int :: "string \<Rightarrow> pyerr + int" where
  "py_int s =
     (case strip s of [] \<Rightarrow> Inl ValueError
      | c # cs \<Rightarrow>
          if c = CHR ''-'' then ebind (int_unsigned cs) (\<lambda>n. Inr (- n))
          else if c = CHR ''+'' then int_unsigned cs
          else int_unsigned (c # cs))"

text \<open>\<^verbatim>\<open>str(n)\<close> for a natural number, and zero padding to a width.\<close>

fun show_nat :: "nat \<Rightarrow> string" where
  "show_nat n = (if n < 10 then [digit_char n] else show_nat (n div 10) @ [digit_char (n mod 10)])"

declare show_nat.simps [simp del]

definition zpad :: "nat \<Rightarrow> string \<Rightarrow> string" where
  "zpad w s = replicate (w - length s) (CHR ''0'') @ s"

text \<open>\<^verbatim>\<open>range(start, stop, step)\<close> as the list of its elements; a zero step raises.\<close>

definition py_range :: "int \<Rightarrow> int \<Rightarrow> int \<Rightarrow> pyerr + int list" where
  "py_range start stop step =
     (if step = 0 then Inl ValueError
      else if step > 0
        then Inr (map (\<lambda>k. start + int k * step) [0 ..< nat ((stop - start + step - 1) div step)])
        else Inr (map (\<lambda>k. start + int k * step) [0 ..< nat ((start - stop - step - 1) div (- step))]))"

section \<open>Timestamps\<close>

text \<open>
  A \<^verbatim>\<open>datetime\<close> holds its calendar fields. The ordinal of the date, the weekday
  (Monday = 0) and the difference of two timestamps follow the standard library:
  the proleptic Gregorian calendar. All timestamps of the engine are in UTC.
\<close>

record datetime =
  year :: int
  month :: int
  day :: int
  hour :: int
  minute :: int
  second :: int
  microsecond :: int

definition is_leap :: "int \<Rightarrow> bool" where
  "is_leap y = (y mod 4 = 0 \<and> (y mod 100 \<noteq> 0 \<or> y mod 400 = 0))"

definition days_before_year :: "int \<Rightarrow> int" where
  "days_before_year y = (let p = y - 1 in p * 365 + p div 4 - p div 100 + p div 400)"

definition days_before_month :: "int \<Rightarrow> int \<Rightarrow> int" where
  "days_before_month y m =
     [0, 31, 59, 90, 120, 151, 181, 212, 243, 273, 304, 334] ! nat (m - 1)
       + (if m > 2 \<and> is_leap y then 1 else 0)"

definition days_in_month :: "int \<Rightarrow> int \<Rightarrow> int" where
  "days_in_month y m =
     (if m = 2 \<and> is_leap y then 29
      else [31, 28, 31, 30, 31, 30, 31, 31, 30, 31, 30, 31] ! nat (m - 1))"

definition valid_datetime :: "datetime \<Rightarrow> bool" where
  "valid_datetime d =
     (1 \<le> year d \<and> year d \<le> 9999 \<and> 1 \<le> month d \<and> month d \<le> 12
      \<and> 1 \<le> day d \<and> day d \<le> days_in_month (year d) (month d)
      \<and> 0 \<le> hour d \<and> hour d \<le> 23 \<and> 0 \<le> minute d \<and> minute d \<le> 59
      \<and> 0 \<le> second d \<and> second d \<le> 59 \<and> 0 \<le> microsecond d \<and> microsecond d \<le> 999999)"

definition toordinal :: "datetime \<Rightarrow> int" where
  "toordinal d = days_before_year (year d) + days_before_month (year d) (month d) + day d"

definition weekday :: "datetime \<Rightarrow> int" where
  "weekday d = (toordinal d + 6) mod 7"

text \<open>\<^verbatim>\<open>now - last\<close> is a timedelta, held here as its whole number of microseconds.\<close>

definition to_micros :: "datetime \<Rightarrow> int" where
  "to_micros d =
     (((toordinal d * 24 + hour d) * 60 + minute d) * 60 + second d) * 1000000 + microsecond d"

definition timedelta :: "datetime \<Rightarrow> datetime \<Rightarrow> int" where
  "timedelta a b = to_micros a - to_micros b"

text \<open>
  \<^verbatim>\<open>total_seconds()\<close> is the exact quotient here. The source's value is the nearest
  double, and its comparison with an integer number of seconds agrees with the exact one
  whenever both are below \<open>2^32\<close> seconds.
\<close>

definition total_seconds :: "int \<Rightarrow> rat" where
  "total_seconds td = of_int td / 1000000"

text \<open>\<^verbatim>\<open>now.strftime("%Y%m%d%H%M")\<close>.\<close>

definition minute_key :: "datetime \<Rightarrow> string" where
  "minute_key d =
     zpad 4 (show_nat (nat (year d))) @ zpad 2 (show_nat (nat (month d)))
       @ zpad 2 (show_nat (nat (day d))) @ zpad 2 (show_nat (nat (hour d)))
       @ zpad 2 (show_nat (nat (minute d)))"

section \<open>Cron matcher\<close>

text \<open>One comma-separated part of a cron field: the body of the loop of \<^verbatim>\<open>_parse_cron_field\<close>.\<close>

definition parse_cron_part :: "string \<Rightarrow> int \<Rightarrow> int \<Rightarrow> pyerr + int set" where
  "parse_cron_part part lo hi =
     (if CHR ''/'' \<in> set part then
        (case split1 (CHR ''/'') part of (base, step) \<Rightarrow>
           ebind (if base = ''*'' then Inr lo else py_int base) (\<lambda>start.
           ebind (py_int step) (\<lambda>st.
           ebind (py_range start (hi + 1) st) (\<lambda>xs. Inr (set xs)))))
      else if CHR ''-'' \<in> set part then
        (case split1 (CHR ''-'') part of (a, b) \<Rightarrow>
           ebind (py_int a) (\<lambda>x.
           ebind (py_int b) (\<lambda>y.
           ebind (py_range x (y + 1) 1) (\<lambda>xs. Inr (set xs)))))
      else if part = ''*'' then ebind (py_range lo (hi + 1) 1) (\<lambda>xs. Inr (set xs))
      else ebind (py_int part) (\<lambda>n. Inr {n}))"

fun parse_cron_parts :: "string list \<Rightarrow> int \<Rightarrow> int \<Rightarrow> int set \<Rightarrow> pyerr + int set" where
  "parse_cron_parts [] lo hi out = Inr out"
| "parse_cron_parts (part # parts) lo hi out =
     ebind (parse_cron_part part lo hi) (\<lambda>xs. parse_cron_parts parts lo hi (out \<union> xs))"

definition parse_cron_field :: "string \<Rightarrow> int \<Rightarrow> int \<Rightarrow> pyerr + int set" where
  "parse_cron_field s lo hi = parse_cron_parts (split_on (CHR '','') s) lo hi {}"

definition cron_matches :: "string \<Rightarrow> datetime \<Rightarrow> pyerr + bool" where
  "cron_matches cron dt =
     (let fields = split_ws (strip cron) in
      if length fields < 5 then Inl IndexError
      else
        ebind (parse_cron_field (fields ! 0) 0 59) (\<lambda>mins.
        ebind (parse_cron_field (fields ! 1) 0 23) (\<lambda>hrs.
        ebind (parse_cron_field (fields ! 2) 1 31) (\<lambda>doms.
        ebind (parse_cron_field (fields ! 3) 1 12) (\<lambda>months.
        ebind (parse_cron_field (fields ! 4) 0 6) (\<lambda>dows.
          let cron_dow = (weekday dt + 1) mod 7 in
          Inr (minute dt \<in> mins \<and> hour dt \<in> hrs \<and> day dt \<in> doms
               \<and> month dt \<in> months \<and> cron_dow \<in> dows)))))))"

section \<open>Regular expressions\<close>

text \<open>
  A pattern of \<^verbatim>\<open>re\<close> is a matcher: from the text still to be read it gives every
  way of matching a prefix, as the matched value and the text left, in the order in
  which the backtracking matcher of \<^verbatim>\<open>re\<close> tries them (greedy repetitions first the
  longest, alternatives left to right). \<^verbatim>\<open>re.match\<close> takes the first.
  All patterns of the source are compiled with \<^verbatim>\<open>re.IGNORECASE\<close>.
\<close>

type_synonym 'a rx = "string \<Rightarrow> ('a \<times> string) list"

definition re_match :: "'a rx \<Rightarrow> string \<Rightarrow> 'a option" where
  "re_match p s = (case p s of [] \<Rightarrow> None | (v, r) # rest \<Rightarrow> Some v)"

definition rx_ret :: "'a \<Rightarrow> 'a rx" where
  "rx_ret v s = [(v, s)]"

definition rx_then :: "'a rx \<Rightarrow> ('a \<Rightarrow> 'b rx) \<Rightarrow> 'b rx" where
  "rx_then p f s = concat (map (\<lambda>(a, r). f a r) (p s))"

text \<open>A literal, matched without regard to case; the value is the text matched.\<close>

definition rx_lit :: "string \<Rightarrow> string rx" where
  "rx_lit w s =
     (if length w \<le> length s \<and> lower (take (length w) s) = lower w
      then [(take (length w) s, drop (length w) s)] else [])"

text \<open>
  \<open>rx_rep P lo hi\<close> is a greedy repetition of a character class, between \<open>lo\<close> and
  \<open>hi\<close> times: \<^verbatim>\<open>\d{1,2}\<close> is \<open>rx_rep is_digit 1 (Some 2)\<close>, \<^verbatim>\<open>\s+\<close> is
  \<open>rx_rep is_space 1 None\<close>, \<^verbatim>\<open>\s*\<close> is \<open>rx_rep is_space 0 None\<close>.
\<close>

definition rx_rep :: "(char \<Rightarrow> bool) \<Rightarrow> nat \<Rightarrow> nat option \<Rightarrow> string rx" where
  "rx_rep P lo hi s =
     (let n = length (takeWhile P s);
          m = (case hi of None \<Rightarrow> n | Some h \<Rightarrow> min h n)
      in map (\<lambda>k. (take k s, drop k s)) (rev [lo ..< Suc m]))"

definition rx_alt :: "'a rx \<Rightarrow> 'a rx \<Rightarrow> 'a rx" where
  "rx_alt p q s = p s @ q s"

fun rx_alts :: "'a rx list \<Rightarrow> 'a rx" where
  "rx_alts [] s = []"
| "rx_alts (p # ps) s = p s @ rx_alts ps s"

text \<open>A greedy optional group \<^verbatim>\<open>(...)?\<close>: the group first, then nothing.\<close>

definition rx_opt :: "'a rx \<Rightarrow> 'a option rx" where
  "rx_opt p s = map (\<lambda>(a, r). (Some a, r)) (p s) @ [(None, s)]"

text \<open>
  A greedy \<^verbatim>\<open>(...)*\<close> of a group that reads at least one character at each round.
  The first argument bounds the number of rounds; \<open>rx_star\<close> gives as many as the
  text has characters.
\<close>

fun rx_star_n :: "nat \<Rightarrow> 'a rx \<Rightarrow> 'a list rx" where
  "rx_star_n 0 p s = [([], s)]"
| "rx_star_n (Suc n) p s =
     concat (map (\<lambda>(a, r).
        if length r < length s then map (\<lambda>(as, r'). (a # as, r')) (rx_star_n n p r) else [])
        (p s)) @ [([], s)]"

definition rx_star :: "'a rx \<Rightarrow> 'a list rx" where
  "rx_star p s = rx_star_n (length s) p s"

text \<open>The text a pattern has read: a capturing group around it.\<close>

definition rx_cap :: "'a rx \<Rightarrow> string rx" where
  "rx_cap p s = map (\<lambda>(a, r). (take (length s - length r) s, r)) (p s)"

text \<open>\<^verbatim>\<open>$\<close>: the end of the text, or the place before a newline that ends it.\<close>

definition rx_end :: "unit rx" where
  "rx_end s = (if s = [] \<or> s = [CHR 0x0A] then [((), s)] else [])"

text \<open>
  \<^verbatim>\<open>\w\<close> on the code points below 256, and \<^verbatim>\<open>re.sub(r'\bWORD\b', rep, text,
  flags=re.IGNORECASE)\<close> for a word made of letters: \<open>prev\<close> is the character before
  the place read, \<open>skip\<close> the number of characters of a match still to pass over.
\<close>

definition is_word :: "char \<Rightarrow> bool" where
  "is_word c = (let n = (of_char c :: nat) in
     (48 \<le> n \<and> n \<le> 57) \<or> (65 \<le> n \<and> n \<le> 90) \<or> n = 95 \<or> (97 \<le> n \<and> n \<le> 122)
     \<or> n \<in> set [170, 178, 179, 181, 185, 186, 188, 189, 190]
     \<or> (192 \<le> n \<and> n \<le> 214) \<or> (216 \<le> n \<and> n \<le> 246) \<or> 248 \<le> n)"

definition word_at :: "string \<Rightarrow> char option \<Rightarrow> string \<Rightarrow> bool" where
  "word_at w prev s =
     ((case prev of None \<Rightarrow> True | Some p \<Rightarrow> \<not> is_word p)
      \<and> length w \<le> length s \<and> lower (take (length w) s) = lower w
      \<and> (case drop (length w) s of [] \<Rightarrow> True | c # cs \<Rightarrow> \<not> is_word c))"

fun sub_word :: "string \<Rightarrow> string \<Rightarrow> nat \<Rightarrow> char option \<Rightarrow> string \<Rightarrow> string" where
  "sub_word w rep skip prev [] = []"
| "sub_word w rep skip prev (c # cs) =
     (if skip > 0 then sub_word w rep (skip - 1) (Some c) cs
      else if word_at w prev (c # cs) then rep @ sub_word w rep (length w - 1) (Some c) cs
      else c # sub_word w rep 0 (Some c) cs)"

text \<open>\<^verbatim>\<open>re.findall\<close> of an alternation of literals: the matches from left to right, without overlap.\<close>

fun findall_lits :: "string list \<Rightarrow> nat \<Rightarrow> string \<Rightarrow> string list" where
  "findall_lits ws skip [] = []"
| "findall_lits ws skip (c # cs) =
     (if skip > 0 then findall_lits ws (skip - 1) cs
      else (case re_match (rx_alts (map rx_lit ws)) (c # cs) of
              None \<Rightarrow> findall_lits ws 0 cs
            | Some m \<Rightarrow> m # findall_lits ws (length m - 1) cs))"

section \<open>Schedule compiler\<close>

datatype sched = Interval int | Cron string

definition show_int :: "int \<Rightarrow> string" where
  "show_int n = (if n < 0 then CHR ''-'' # show_nat (nat (- n)) else show_nat (nat n))"

definition DOW :: "(string \<times> int) list" where
  "DOW = [(''sunday'', 0), (''monday'', 1), (''tuesday'', 2), (''wednesday'', 3),
          (''thursday'', 4), (''friday'', 5), (''saturday'', 6)]"

definition dict_get :: "(string \<times> 'a) list \<Rightarrow> string \<Rightarrow> pyerr + 'a" where
  "dict_get d k = (case map_of d k of None \<Rightarrow> Inl KeyError | Some v \<Rightarrow> Inr v)"

definition to24 :: "int \<Rightarrow> int \<Rightarrow> string option \<Rightarrow> int \<times> int" where
  "to24 h m ampm =
     (case ampm of None \<Rightarrow> (h, m)
      | Some a \<Rightarrow>
          if a = [] then (h, m)
          else (let a' = lower a;
                    h1 = (if a' = ''pm'' \<and> h \<noteq> 12 then h + 12 else h);
                    h2 = (if a' = ''am'' \<and> h1 = 12 then 0 else h1)
                in (h2, m)))"

text \<open>\<^verbatim>\<open>int(g or 0)\<close> for an optional group.\<close>

definition int_or_0 :: "string option \<Rightarrow> pyerr + int" where
  "int_or_0 g = (case g of None \<Rightarrow> Inr 0 | Some s \<Rightarrow> if s = [] then Inr 0 else py_int s)"

definition rstrip_s :: "string \<Rightarrow> string" where
  "rstrip_s s = rev (dropWhile (\<lambda>c. c = CHR ''s'') (rev s))"

definition dow_names :: "string list" where
  "dow_names = [''monday'', ''tuesday'', ''wednesday'', ''thursday'', ''friday'', ''saturday'', ''sunday'']"

definition rx_dow :: "string rx" where
  "rx_dow = rx_alts (map rx_lit dow_names)"

text \<open>The tail shared by the four cron patterns: \<^verbatim>\<open>(\d{1,2})(?::(\d{2}))?\s*(am|pm)?$\<close>.\<close>

definition rx_time :: "(string \<times> string option \<times> string option) rx" where
  "rx_time =
     rx_then (rx_rep is_digit 1 (Some 2)) (\<lambda>h.
     rx_then (rx_opt (rx_then (rx_lit '':'') (\<lambda>_. rx_rep is_digit 2 (Some 2)))) (\<lambda>mm.
     rx_then (rx_rep is_space 0 None) (\<lambda>_.
     rx_then (rx_opt (rx_alt (rx_lit ''am'') (rx_lit ''pm''))) (\<lambda>ap.
     rx_then rx_end (\<lambda>_. rx_ret (h, mm, ap))))))"

text \<open>\<^verbatim>\<open>every\s+(\d+)\s+(seconds?|minutes?|hours?)\<close>\<close>

definition rx_interval :: "(string \<times> string) rx" where
  "rx_interval =
     rx_then (rx_lit ''every'') (\<lambda>_.
     rx_then (rx_rep is_space 1 None) (\<lambda>_.
     rx_then (rx_rep is_digit 1 None) (\<lambda>n.
     rx_then (rx_rep is_space 1 None) (\<lambda>_.
     rx_then (rx_cap (rx_alts
        [rx_then (rx_lit ''second'') (\<lambda>_. rx_opt (rx_lit ''s'')),
         rx_then (rx_lit ''minute'') (\<lambda>_. rx_opt (rx_lit ''s'')),
         rx_then (rx_lit ''hour'') (\<lambda>_. rx_opt (rx_lit ''s''))])) (\<lambda>u.
     rx_ret (n, u))))))"

text \<open>\<^verbatim>\<open>every\s+hour$\<close>\<close>

definition rx_every_hour :: "unit rx" where
  "rx_every_hour =
     rx_then (rx_lit ''every'') (\<lambda>_.
     rx_then (rx_rep is_space 1 None) (\<lambda>_.
     rx_then (rx_lit ''hour'') (\<lambda>_. rx_end)))"

text \<open>\<^verbatim>\<open>every\s+(monday|...|sunday)\s+at\s+\<close> and the time.\<close>

definition rx_every_dow :: "(string \<times> string \<times> string option \<times> string option) rx" where
  "rx_every_dow =
     rx_then (rx_lit ''every'') (\<lambda>_.
     rx_then (rx_rep is_space 1 None) (\<lambda>_.
     rx_then rx_dow (\<lambda>d.
     rx_then (rx_rep is_space 1 None) (\<lambda>_.
     rx_then (rx_lit ''at'') (\<lambda>_.
     rx_then (rx_rep is_space 1 None) (\<lambda>_.
     rx_then rx_time (\<lambda>t. rx_ret (d, t))))))))"

text \<open>\<^verbatim>\<open>every\s+day\s+at\s+\<close> and the time.\<close>

definition rx_every_day :: "(string \<times> string option \<times> string option) rx" where
  "rx_every_day =
     rx_then (rx_lit ''every'') (\<lambda>_.
     rx_then (rx_rep is_space 1 None) (\<lambda>_.
     rx_then (rx_lit ''day'') (\<lambda>_.
     rx_then (rx_rep is_space 1 None) (\<lambda>_.
     rx_then (rx_lit ''at'') (\<lambda>_.
     rx_then (rx_rep is_space 1 None) (\<lambda>_. rx_time))))))"

text \<open>
  \<^verbatim>\<open>every\s+((?:DOW)(?:\s*,?\s*(?:and\s+)?(?:DOW))*)\s+at\s+\<close> and the time, where
  \<^verbatim>\<open>DOW\<close> is the alternation of the seven day names.
\<close>

definition rx_every_dows :: "(string \<times> string \<times> string option \<times> string option) rx" where
  "rx_every_dows =
     rx_then (rx_lit ''every'') (\<lambda>_.
     rx_then (rx_rep is_space 1 None) (\<lambda>_.
     rx_then (rx_cap
        (rx_then rx_dow (\<lambda>_.
         rx_star
           (rx_then (rx_rep is_space 0 None) (\<lambda>_.
            rx_then (rx_opt (rx_lit '','')) (\<lambda>_.
            rx_then (rx_rep is_space 0 None) (\<lambda>_.
            rx_then (rx_opt (rx_then (rx_lit ''and'') (\<lambda>_. rx_rep is_space 1 None))) (\<lambda>_.
            rx_dow)))))))) (\<lambda>ds.
     rx_then (rx_rep is_space 1 None) (\<lambda>_.
     rx_then (rx_lit ''at'') (\<lambda>_.
     rx_then (rx_rep is_space 1 None) (\<lambda>_.
     rx_then rx_time (\<lambda>t. rx_ret (ds, t))))))))"

text \<open>\<^verbatim>\<open>(?:on\s+the\s+)?first\s+day\s+of\s+(?:every\s+)?month\s+at\s+\<close> and the time.\<close>

definition rx_first_day :: "(string \<times> string option \<times> string option) rx" where
  "rx_first_day =
     rx_then (rx_opt (rx_then (rx_lit ''on'') (\<lambda>_.
                      rx_then (rx_rep is_space 1 None) (\<lambda>_.
                      rx_then (rx_lit ''the'') (\<lambda>_. rx_rep is_space 1 None))))) (\<lambda>_.
     rx_then (rx_lit ''first'') (\<lambda>_.
     rx_then (rx_rep is_space 1 None) (\<lambda>_.
     rx_then (rx_lit ''day'') (\<lambda>_.
     rx_then (rx_rep is_space 1 None) (\<lambda>_.
     rx_then (rx_lit ''of'') (\<lambda>_.
     rx_then (rx_rep is_space 1 None) (\<lambda>_.
     rx_then (rx_opt (rx_then (rx_lit ''every'') (\<lambda>_. rx_rep is_space 1 None))) (\<lambda>_.
     rx_then (rx_lit ''month'') (\<lambda>_.
     rx_then (rx_rep is_space 1 None) (\<lambda>_.
     rx_then (rx_lit ''at'') (\<lambda>_.
     rx_then (rx_rep is_space 1 None) (\<lambda>_. rx_time))))))))))))"

text \<open>The hour and minute of a matched time: \<^verbatim>\<open>cls._to24(int(h), int(mm or 0), ampm)\<close>.\<close>

definition time24 :: "string \<times> string option \<times> string option \<Rightarrow> pyerr + int \<times> int" where
  "time24 t = (case t of (h, mm, ap) \<Rightarrow>
     ebind (py_int h) (\<lambda>hv. ebind (int_or_0 mm) (\<lambda>mv. Inr (to24 hv mv ap))))"

fun join :: "string \<Rightarrow> string list \<Rightarrow> string" where
  "join sep [] = []"
| "join sep [x] = x"
| "join sep (x # y # ys) = x @ sep @ join sep (y # ys)"

fun map_err :: "('a \<Rightarrow> pyerr + 'b) \<Rightarrow> 'a list \<Rightarrow> pyerr + 'b list" where
  "map_err f [] = Inr []"
| "map_err f (x # xs) = ebind (f x) (\<lambda>y. ebind (map_err f xs) (\<lambda>ys. Inr (y # ys)))"

text \<open>The text the patterns are tried on: stripped, with the two synonyms rewritten.\<close>

definition prepare :: "string \<Rightarrow> string" where
  "prepare text = sub_word ''noon'' ''12 PM'' 0 None (sub_word ''midnight'' ''12 AM'' 0 None (strip text))"

text \<open>
  \<^verbatim>\<open>NLSchedule.parse\<close>: the six patterns in the order of the source; the first that
  matches decides. Each \<open>..._result\<close> is the body of the corresponding \<^verbatim>\<open>if m:\<close>.
\<close>

definition interval_result :: "string \<times> string \<Rightarrow> pyerr + sched" where
  "interval_result g = (case g of (n, u) \<Rightarrow>
     ebind (py_int n) (\<lambda>nv.
     ebind (dict_get [(''second'', 1), (''minute'', 60), (''hour'', 3600)] (rstrip_s (lower u))) (\<lambda>k.
     Inr (Interval (nv * k)))))"

definition every_dow_result :: "string \<times> string \<times> string option \<times> string option \<Rightarrow> pyerr + sched" where
  "every_dow_result g = (case g of (d, t) \<Rightarrow>
     ebind (dict_get DOW (lower d)) (\<lambda>dow.
     ebind (time24 t) (\<lambda>hm.
     Inr (Cron (show_int (snd hm) @ '' '' @ show_int (fst hm) @ '' * * '' @ show_int dow)))))"

definition every_day_result :: "string \<times> string option \<times> string option \<Rightarrow> pyerr + sched" where
  "every_day_result t =
     ebind (time24 t) (\<lambda>hm.
     Inr (Cron (show_int (snd hm) @ '' '' @ show_int (fst hm) @ '' * * *'')))"

definition every_dows_result :: "string \<times> string \<times> string option \<times> string option \<Rightarrow> pyerr + sched" where
  "every_dows_result g = (case g of (ds, t) \<Rightarrow>
     ebind (map_err (\<lambda>d. dict_get DOW (lower d)) (findall_lits dow_names 0 ds)) (\<lambda>nums.
     ebind (time24 t) (\<lambda>hm.
     Inr (Cron (show_int (snd hm) @ '' '' @ show_int (fst hm) @ '' * * ''
                @ join '','' (map show_int nums))))))"

definition first_day_result :: "string \<times> string option \<times> string option \<Rightarrow> pyerr + sched" where
  "first_day_result t =
     ebind (time24 t) (\<lambda>hm.
     Inr (Cron (show_int (snd hm) @ '' '' @ show_int (fst hm) @ '' 1 * *'')))"

definition parse :: "string \<Rightarrow> pyerr + sched" where
  "parse text0 =
     (let text = prepare text0 in
      (case re_match rx_interval text of Some g \<Rightarrow> interval_result g
       | None \<Rightarrow>
      (if re_match rx_every_hour text \<noteq> None then Inr (Interval 3600)
       else
      (case re_match rx_every_dow text of Some g \<Rightarrow> every_dow_result g
       | None \<Rightarrow>
      (case re_match rx_every_day text of Some g \<Rightarrow> every_day_result g
       | None \<Rightarrow>
      (case re_match rx_every_dows text of Some g \<Rightarrow> every_dows_result g
       | None \<Rightarrow>
      (case re_match rx_first_day text of Some g \<Rightarrow> first_day_result g
       | None \<Rightarrow> Inl ValueError)))))))"

section \<open>Files\<close>

text \<open>
  The file system is a list of the existing paths with what is there; a path is the
  list of its components below the root, resolved (no \<^verbatim>\<open>.\<close>, no \<^verbatim>\<open>..\<close>). There are
  no symbolic links. \<open>resolve_join d v\<close> is \<^verbatim>\<open>(d / v).resolve()\<close> for a resolved \<open>d\<close>:
  an absolute \<open>v\<close> replaces \<open>d\<close>.
\<close>

datatype node = File string | Dir

type_synonym path = "string list"

type_synonym filesystem = "(path \<times> node) list"

definition path_parts :: "string \<Rightarrow> string list" where
  "path_parts v = filter (\<lambda>p. p \<noteq> [] \<and> p \<noteq> ''.'') (split_on (CHR ''/'') v)"

fun normalise :: "path \<Rightarrow> string list \<Rightarrow> path" where
  "normalise acc [] = acc"
| "normalise acc (p # ps) =
     (if p = ''..'' then normalise (butlast acc) ps else normalise (acc @ [p]) ps)"

definition resolve_join :: "path \<Rightarrow> string \<Rightarrow> path" where
  "resolve_join d v =
     (if v \<noteq> [] \<and> hd v = CHR ''/'' then normalise [] (path_parts v)
      else normalise d (path_parts v))"

definition path_str :: "path \<Rightarrow> string" where
  "path_str p = concat (map (\<lambda>c. CHR ''/'' # c) p)"

definition path_exists :: "filesystem \<Rightarrow> path \<Rightarrow> bool" where
  "path_exists disk p = (p = [] \<or> map_of disk p \<noteq> None)"

definition is_dir :: "filesystem \<Rightarrow> path \<Rightarrow> bool" where
  "is_dir disk p = (p = [] \<or> map_of disk p = Some Dir)"

definition read_text :: "filesystem \<Rightarrow> path \<Rightarrow> pyerr + string" where
  "read_text disk p =
     (if p = [] then Inl IsADirectoryError
      else case map_of disk p of None \<Rightarrow> Inl FileNotFoundError
        | Some Dir \<Rightarrow> Inl IsADirectoryError
        | Some (File c) \<Rightarrow> Inr c)"

definition iterdir :: "filesystem \<Rightarrow> path \<Rightarrow> path list" where
  "iterdir disk d = filter (\<lambda>p. p \<noteq> [] \<and> butlast p = d) (remdups (map fst disk))"

definition startswith :: "string \<Rightarrow> string \<Rightarrow> bool" where
  "startswith s pre = (take (length pre) s = pre)"

definition endswith :: "string \<Rightarrow> string \<Rightarrow> bool" where
  "endswith s suf = (length suf \<le> length s \<and> drop (length s - length suf) s = suf)"

text \<open>\<^verbatim>\<open>str.splitlines\<close> on the code points below 256; \<^verbatim>\<open>\r\n\<close> is one line break.\<close>

definition is_linebreak :: "char \<Rightarrow> bool" where
  "is_linebreak c = (c \<in> set [CHR 0x0A, CHR 0x0B, CHR 0x0C, CHR 0x0D, CHR 0x1C, CHR 0x1D,
     CHR 0x1E, CHR 0x85])"

fun splitlines_aux :: "string \<Rightarrow> string \<Rightarrow> string list" where
  "splitlines_aux [] cur = (if cur = [] then [] else [cur])"
| "splitlines_aux [c] cur = (if is_linebreak c then [cur] else [cur @ [c]])"
| "splitlines_aux (c # d # cs) cur =
     (if c = CHR 0x0D \<and> d = CHR 0x0A then cur # splitlines_aux cs []
      else if is_linebreak c then cur # splitlines_aux (d # cs) []
      else splitlines_aux (d # cs) (cur @ [c]))"

definition splitlines :: "string \<Rightarrow> string list" where
  "splitlines s = splitlines_aux s []"

section \<open>Event definitions and their parser\<close>

record EventDef =
  name :: string
  description :: yaml
  event_type :: yaml
  schedule_raw :: yaml
  schedule :: "sched option"
  action :: yaml
  event_dir :: path
  active :: yaml
  resolved_params :: "(yaml \<times> yaml) list"

text \<open>\<^verbatim>\<open>_resolve_value\<close>\<close>

definition resolve_value :: "filesystem \<Rightarrow> yaml \<Rightarrow> path \<Rightarrow> pyerr + yaml" where
  "resolve_value disk v edir =
     (case v of
        YStr txt \<Rightarrow>
          (let candidate = resolve_join edir txt in
           if path_exists disk candidate \<and> startswith (path_str candidate) (path_str edir)
           then ebind (read_text disk candidate) (\<lambda>raw.
                  if endswith txt ''.txt''
                  then Inr (YList (map YStr
                         (map strip (filter (\<lambda>l. strip l \<noteq> [] \<and> \<not> startswith (strip l) ''#'')
                            (splitlines raw)))))
                  else Inr (YStr (strip raw)))
           else Inr v)
      | _ \<Rightarrow> Inr v)"

text \<open>\<^verbatim>\<open>s.split(sep, maxsplit)\<close> for a non-empty separator.\<close>

fun find_sep :: "string \<Rightarrow> string \<Rightarrow> string \<Rightarrow> (string \<times> string) option" where
  "find_sep sep pre [] = None"
| "find_sep sep pre (c # cs) =
     (if startswith (c # cs) sep then Some (pre, drop (length sep) (c # cs))
      else find_sep sep (pre @ [c]) cs)"

fun split_max :: "string \<Rightarrow> nat \<Rightarrow> string \<Rightarrow> string list" where
  "split_max sep 0 s = [s]"
| "split_max sep (Suc n) s =
     (case find_sep sep [] s of None \<Rightarrow> [s] | Some (a, b) \<Rightarrow> a # split_max sep n b)"

text \<open>
  \<^verbatim>\<open>k in d\<close> for a string \<open>k\<close>: a key of a mapping, an element of a sequence, a
  substring of a string; a TypeError on the other values.
\<close>

definition is_substring :: "string \<Rightarrow> string \<Rightarrow> bool" where
  "is_substring k s = (\<exists>i \<in> set [0 ..< Suc (length s)]. startswith (drop i s) k)"

definition py_in :: "string \<Rightarrow> yaml \<Rightarrow> pyerr + bool" where
  "py_in k d =
     (case d of
        YDict kvs \<Rightarrow> Inr (YStr k \<in> set (map fst kvs))
      | YList xs \<Rightarrow> Inr (YStr k \<in> set xs)
      | YStr s \<Rightarrow> Inr (is_substring k s)
      | _ \<Rightarrow> Inl TypeError)"

text \<open>\<^verbatim>\<open>d.get(k, dflt)\<close> on the items of a mapping; a value without \<^verbatim>\<open>get\<close> or \<^verbatim>\<open>items\<close> raises.\<close>

definition yget :: "(yaml \<times> yaml) list \<Rightarrow> string \<Rightarrow> yaml \<Rightarrow> yaml" where
  "yget kvs k dflt = (case map_of kvs (YStr k) of None \<Rightarrow> dflt | Some v \<Rightarrow> v)"

definition items :: "yaml \<Rightarrow> pyerr + (yaml \<times> yaml) list" where
  "items v = (case v of YDict kvs \<Rightarrow> Inr kvs | _ \<Rightarrow> Inl AttributeError)"

text \<open>
  \<^verbatim>\<open>str(v)\<close>. Inside a sequence or mapping a string is shown between quotes without
  escapes, which only changes the text after the opening bracket.
\<close>

fun py_repr :: "yaml \<Rightarrow> string" where
  "py_repr YNull = ''None''"
| "py_repr (YBool b) = (if b then ''True'' else ''False'')"
| "py_repr (YInt n) = show_int n"
| "py_repr (YStr s) = [CHR 0x27] @ s @ [CHR 0x27]"
| "py_repr (YList xs) = ''['' @ join '', '' (map py_repr xs) @ '']''"
| "py_repr (YDict kvs) =
     ''{'' @ join '', '' (map (\<lambda>kv. py_repr (fst kv) @ '': '' @ py_repr (snd kv)) kvs) @ ''}''"

definition py_str :: "yaml \<Rightarrow> string" where
  "py_str v = (case v of YStr s \<Rightarrow> s | _ \<Rightarrow> py_repr v)"

text \<open>The dict comprehension over \<^verbatim>\<open>raw_params.items()\<close>.\<close>

fun resolve_params :: "filesystem \<Rightarrow> path \<Rightarrow> (yaml \<times> yaml) list \<Rightarrow> pyerr + (yaml \<times> yaml) list" where
  "resolve_params disk edir [] = Inr []"
| "resolve_params disk edir ((k, v) # kvs) =
     ebind (resolve_value disk v edir) (\<lambda>v'.
     ebind (resolve_params disk edir kvs) (\<lambda>rest. Inr ((k, v') # rest)))"

text \<open>
  \<^verbatim>\<open>parse_event_md\<close>. The YAML parser is the parameter \<open>safe_load\<close>. \<open>from_header\<close> is
  the part after the two checks of required fields, on the items of the header.
\<close>

definition from_header :: "filesystem \<Rightarrow> path \<Rightarrow> (yaml \<times> yaml) list \<Rightarrow> pyerr + EventDef" where
  "from_header disk edir kvs0 =
     (let kvs = (if YStr ''action'' \<notin> set (map fst kvs0) \<and> YStr ''script'' \<in> set (map fst kvs0)
                 then kvs0 @ [(YStr ''action'', YDict [(YStr ''script'', yget kvs0 ''script'' YNull)])]
                 else kvs0);
          sraw = yget kvs ''schedule'' YNull
      in
      ebind (if py_truthy sraw \<and> yget kvs ''type'' YNull = YStr ''scheduled''
             then ebind (parse (py_str sraw)) (\<lambda>r. Inr (Some r)) else Inr None) (\<lambda>sch.
      ebind (items (yget kvs ''action'' (YDict []))) (\<lambda>act.
      ebind (items (yget act ''params'' (YDict []))) (\<lambda>raw_params.
      ebind (resolve_params disk edir raw_params) (\<lambda>resolved.
      Inr \<lparr> name = (if edir = [] then [] else last edir),
            description = yget kvs ''description'' (YStr []),
            event_type = yget kvs ''type'' YNull,
            schedule_raw = sraw,
            schedule = sch,
            action = yget kvs ''action'' YNull,
            event_dir = edir,
            active = yget kvs ''active'' (YBool False),
            resolved_params = resolved \<rparr>)))))"

definition parse_event_md :: "(string \<Rightarrow> pyerr + yaml) \<Rightarrow> filesystem \<Rightarrow> path \<Rightarrow> pyerr + EventDef" where
  "parse_event_md safe_load disk edir =
     (let event_md = edir @ [''EVENT.md''] in
      if \<not> path_exists disk event_md then Inl FileNotFoundError
      else
      ebind (read_text disk event_md) (\<lambda>raw_text.
      if \<not> startswith raw_text ''---'' then Inl ValueError
      else
      (let parts = split_max ''---'' 2 raw_text in
       if length parts < 3 then Inl ValueError
       else
       ebind (safe_load (parts ! 1)) (\<lambda>loaded.
       (let data = (if py_truthy loaded then loaded else YDict []) in
        ebind (py_in ''type'' data) (\<lambda>has_type.
        if \<not> has_type then Inl ValueError
        else
        ebind (py_in ''action'' data) (\<lambda>has_action.
        ebind (if has_action then Inr True else py_in ''script'' data) (\<lambda>has_any.
        if \<not> has_any then Inl ValueError
        else (case data of
                YDict kvs \<Rightarrow> from_header disk edir kvs
              | _ \<Rightarrow> if has_action then Inl AttributeError else Inl TypeError)))))))))"

section \<open>The engine\<close>

text \<open>
  A tool of the MCP client and the \<^verbatim>\<open>handle\<close> of a script get the parameters and
  return a result or raise. Loading a script file (\<^verbatim>\<open>exec_module\<close>) is outside the
  repository: it is the parameter \<open>exec_module\<close> of \<open>dispatch\<close>, giving for a path
  either the error raised while loading, or a module with or without \<^verbatim>\<open>handle\<close>.
\<close>

type_synonym tool = "(yaml \<times> yaml) list \<Rightarrow> pyerr + yaml"

datatype script_module = LoadRaises pyerr | NoHandle | Handle tool

record AEPEventEngine =
  events_root :: path
  mcp :: "(string \<times> tool) list"
  events :: "EventDef list"
  last_fired :: "string \<rightharpoonup> datetime"
  cron_fired_this_minute :: "string \<rightharpoonup> bool"
  running :: bool

text \<open>\<^verbatim>\<open>AEPEventEngine.__init__\<close>\<close>

definition init_engine :: "path \<Rightarrow> (string \<times> tool) list \<Rightarrow> AEPEventEngine" where
  "init_engine rootdir tools =
     \<lparr> events_root = rootdir, mcp = tools, events = [], last_fired = Map.empty,
       cron_fired_this_minute = Map.empty, running = False \<rparr>"

text \<open>\<^verbatim>\<open>AEPEventEngine.load\<close>: the body of the loop, then the loop over the sorted entries.\<close>

definition load_candidate ::
  "(string \<Rightarrow> pyerr + yaml) \<Rightarrow> filesystem \<Rightarrow> AEPEventEngine \<Rightarrow> path \<Rightarrow> AEPEventEngine" where
  "load_candidate safe_load disk eng candidate =
     (if \<not> is_dir disk candidate then eng
      else if \<not> path_exists disk (candidate @ [''EVENT.md'']) then eng
      else (case parse_event_md safe_load disk candidate of
              Inr ev \<Rightarrow> eng\<lparr>events := events eng @ [ev]\<rparr>
            | Inl e \<Rightarrow> eng))"

definition load ::
  "(string \<Rightarrow> pyerr + yaml) \<Rightarrow> filesystem \<Rightarrow> AEPEventEngine \<Rightarrow> pyerr + AEPEventEngine" where
  "load safe_load disk eng =
     (if \<not> is_dir disk (events_root eng) then Inl FileNotFoundError
      else Inr (foldl (load_candidate safe_load disk) eng
                  (sort_key last (iterdir disk (events_root eng)))))"

text \<open>\<^verbatim>\<open>MCPClient.call_tool\<close>; a name that cannot be a key of the registry is a TypeError.\<close>

definition call_tool :: "(string \<times> tool) list \<Rightarrow> yaml \<Rightarrow> (yaml \<times> yaml) list \<Rightarrow> pyerr + yaml" where
  "call_tool tools nm params =
     (case nm of
        YStr n \<Rightarrow> (case map_of tools n of None \<Rightarrow> Inl RuntimeError | Some fn \<Rightarrow> fn params)
      | YList xs \<Rightarrow> Inl TypeError
      | YDict kvs \<Rightarrow> Inl TypeError
      | _ \<Rightarrow> Inl RuntimeError)"

text \<open>\<^verbatim>\<open>params["_event_name"] = ev.name\<close> on a copy of the resolved parameters.\<close>

definition set_item :: "(yaml \<times> yaml) list \<Rightarrow> yaml \<Rightarrow> yaml \<Rightarrow> (yaml \<times> yaml) list" where
  "set_item kvs k v =
     (if k \<in> set (map fst kvs) then map (\<lambda>kv. if fst kv = k then (k, v) else kv) kvs
      else kvs @ [(k, v)])"

text \<open>
  \<^verbatim>\<open>AEPEventEngine._dispatch\<close>: \<open>Inr ()\<close> when it returns, \<open>Inl e\<close> when \<open>e\<close> leaves it.
  The tool call is inside \<^verbatim>\<open>try ... except Exception\<close>; the script branch has no handler.
\<close>

definition dispatch ::
  "(path \<Rightarrow> script_module) \<Rightarrow> filesystem \<Rightarrow> AEPEventEngine \<Rightarrow> EventDef \<Rightarrow> pyerr + unit" where
  "dispatch exec_module disk eng ev =
     (case action ev of
        YDict act \<Rightarrow>
          if YStr ''mcp'' \<in> set (map fst act) then
            (let tool_name = yget act ''mcp'' YNull;
                 params = set_item (resolved_params ev) (YStr ''_event_name'') (YStr (name ev))
             in (case call_tool (mcp eng) tool_name params of
                   Inr result \<Rightarrow> Inr ()
                 | Inl e \<Rightarrow> Inr ()))
          else if YStr ''script'' \<in> set (map fst act) then
            (case yget act ''script'' YNull of
               YStr script \<Rightarrow>
                 (let script_path = resolve_join (event_dir ev) script in
                  if \<not> path_exists disk script_path then Inr ()
                  else (case exec_module script_path of
                          LoadRaises e \<Rightarrow> Inl e
                        | NoHandle \<Rightarrow> Inr ()
                        | Handle h \<Rightarrow>
                            (case h (resolved_params ev) of
                               Inl e \<Rightarrow> Inl e
                             | Inr result \<Rightarrow> Inr ())))
             | _ \<Rightarrow> Inl TypeError)
          else Inr ()
      | _ \<Rightarrow> Inl TypeError)"

text \<open>\<^verbatim>\<open>AEPEventEngine._is_due\<close>; the cron branch may mark the minute in the engine.\<close>

definition is_due :: "AEPEventEngine \<Rightarrow> EventDef \<Rightarrow> datetime \<Rightarrow> pyerr + bool \<times> AEPEventEngine" where
  "is_due eng ev now =
     (if event_type ev \<noteq> YStr ''scheduled'' then Inr (False, eng)
      else (case schedule ev of
              None \<Rightarrow> Inr (False, eng)
            | Some (Interval secs) \<Rightarrow>
                (case last_fired eng (name ev) of
                   None \<Rightarrow> Inr (True, eng)
                 | Some fired \<Rightarrow> Inr (total_seconds (timedelta now fired) \<ge> of_int secs, eng))
            | Some (Cron cron) \<Rightarrow>
                (let cache_key = name ev @ '':'' @ minute_key now in
                 if cron_fired_this_minute eng cache_key = Some True then Inr (False, eng)
                 else ebind (cron_matches cron now) (\<lambda>m.
                        if m then Inr (True, eng\<lparr>cron_fired_this_minute :=
                                         (cron_fired_this_minute eng)(cache_key \<mapsto> True)\<rparr>)
                        else Inr (False, eng)))))"

text \<open>
  \<^verbatim>\<open>AEPEventEngine._tick\<close> at the time \<open>now\<close>: the loop over the events. The result is
  the error that left the loop, if any, and the engine as the loop left it.
\<close>

fun tick_events ::
  "(path \<Rightarrow> script_module) \<Rightarrow> filesystem \<Rightarrow> datetime \<Rightarrow> EventDef list \<Rightarrow> AEPEventEngine
     \<Rightarrow> pyerr option \<times> AEPEventEngine" where
  "tick_events exec_module disk now [] eng = (None, eng)"
| "tick_events exec_module disk now (ev # evs) eng =
     (if py_truthy (active ev) then
        (case is_due eng ev now of
           Inl e \<Rightarrow> (Some e, eng)
         | Inr (due, eng1) \<Rightarrow>
             if due then
               (let eng2 = eng1\<lparr>last_fired := (last_fired eng1)(name ev \<mapsto> now)\<rparr> in
                case dispatch exec_module disk eng2 ev of
                  Inl e \<Rightarrow> (Some e, eng2)
                | Inr u \<Rightarrow> tick_events exec_module disk now evs eng2)
             else tick_events exec_module disk now evs eng1)
      else tick_events exec_module disk now evs eng)"

definition tick ::
  "(path \<Rightarrow> script_module) \<Rightarrow> filesystem \<Rightarrow> datetime \<Rightarrow> AEPEventEngine
     \<Rightarrow> pyerr option \<times> AEPEventEngine" where
  "tick exec_module disk now eng = tick_events exec_module disk now (events eng) eng"

text \<open>
  \<^verbatim>\<open>AEPEventEngine.run\<close>. The clock is the list of the readings of
  \<^verbatim>\<open>datetime.now\<close> still to come, one for each call; \<open>StillRunning\<close> is the loop
  still going when the readings given are used up.
\<close>

datatype run_result = Stopped AEPEventEngine | Raised pyerr AEPEventEngine | StillRunning AEPEventEngine

fun run_loop ::
  "(path \<Rightarrow> script_module) \<Rightarrow> filesystem \<Rightarrow> rat option \<Rightarrow> datetime \<Rightarrow> datetime list
     \<Rightarrow> AEPEventEngine \<Rightarrow> run_result" where
  "run_loop exec_module disk duration start [] eng =
     (if running eng then StillRunning eng else Stopped eng)"
| "run_loop exec_module disk duration start (now # clock) eng =
     (if \<not> running eng then Stopped eng
      else (case tick exec_module disk now eng of
              (Some e, eng1) \<Rightarrow> Raised e eng1
            | (None, eng1) \<Rightarrow>
                (case duration of
                   None \<Rightarrow> run_loop exec_module disk duration start clock eng1
                 | Some d \<Rightarrow>
                     if d = 0 then run_loop exec_module disk duration start clock eng1
                     else (case clock of
                             [] \<Rightarrow> StillRunning eng1
                           | t # clock' \<Rightarrow>
                               if total_seconds (timedelta t start) \<ge> d then Stopped eng1
                               else run_loop exec_module disk duration start clock' eng1))))"

definition run ::
  "(path \<Rightarrow> script_module) \<Rightarrow> filesystem \<Rightarrow> rat option \<Rightarrow> datetime list \<Rightarrow> AEPEventEngine
     \<Rightarrow> run_result" where
  "run exec_module disk duration clock eng =
     (case clock of
        [] \<Rightarrow> StillRunning (eng\<lparr>running := True\<rparr>)
      | start # rest \<Rightarrow> run_loop exec_module disk duration start rest (eng\<lparr>running := True\<rparr>))"

section \<open>Administrative operations\<close>

text \<open>
  The globals of \<^verbatim>\<open>app.py\<close> that \<^verbatim>\<open>delete_event\<close> uses. Of an entry of the event
  log the event and the action are kept.
\<close>

record app =
  engine :: "AEPEventEngine option"
  EVENTS_DIR :: path
  files :: filesystem
  event_log :: "(string \<times> string) list"

datatype delete_result = NoName | NotFound | Deleted | DeleteError pyerr

text \<open>\<^verbatim>\<open>shutil.rmtree\<close>\<close>

definition rmtree :: "filesystem \<Rightarrow> path \<Rightarrow> filesystem" where
  "rmtree disk d = filter (\<lambda>pn. take (length d) (fst pn) \<noteq> d) disk"

text \<open>\<^verbatim>\<open>delete_event\<close>\<close>

definition delete_event :: "string \<Rightarrow> app \<Rightarrow> delete_result \<times> app" where
  "delete_event event_name st =
     (if event_name = [] then (NoName, st)
      else (let edir = resolve_join (EVENTS_DIR st) event_name in
            if \<not> path_exists (files st) edir then (NotFound, st)
            else (let st1 = (case engine st of
                               None \<Rightarrow> st
                             | Some eng \<Rightarrow>
                                 st\<lparr>engine := Some (eng
                                     \<lparr>events := filter (\<lambda>ev. name ev \<noteq> event_name) (events eng),
                                      last_fired := (last_fired eng)(event_name := None)\<rparr>)\<rparr>)
                  in if \<not> is_dir (files st1) edir then (DeleteError NotADirectoryError, st1)
                     else (Deleted, st1\<lparr>files := rmtree (files st1) edir,
                                         event_log := event_log st1 @ [(event_name, ''deleted'')]\<rparr>))))"

text \<open>\<^verbatim>\<open>engine.events.append(ev)\<close>, as \<^verbatim>\<open>create_event_on_disk\<close> does with the event it has parsed.\<close>

definition append_event :: "EventDef \<Rightarrow> AEPEventEngine \<Rightarrow> AEPEventEngine" where
  "append_event ev eng = eng\<lparr>events := events eng @ [ev]\<rparr>"

section \<open>Sequences of evaluations and example inputs\<close>

text \<open>
  The results of evaluating the due-ness of one event at the times of a list, one after
  the other, each on the engine the one before has left; an evaluation that raises
  reports nothing and leaves the engine as it was.
\<close>

fun due_seq :: "AEPEventEngine \<Rightarrow> EventDef \<Rightarrow> datetime list \<Rightarrow> bool list \<times> AEPEventEngine" where
  "due_seq eng ev [] = ([], eng)"
| "due_seq eng ev (t # ts) =
     (case is_due eng ev t of
        Inl e \<Rightarrow> (False # fst (due_seq eng ev ts), snd (due_seq eng ev ts))
      | Inr (r, eng1) \<Rightarrow> (r # fst (due_seq eng1 ev ts), snd (due_seq eng1 ev ts)))"

text \<open>The number a string of decimal digits denotes.\<close>

definition digits_val :: "string \<Rightarrow> nat" where
  "digits_val ds = foldl (\<lambda>a c. a * 10 + digit_val c) 0 ds"

text \<open>The texts that one of the six patterns of \<open>parse\<close> matches.\<close>

definition recognised :: "string \<Rightarrow> bool" where
  "recognised text0 =
     (let text = prepare text0 in
      re_match rx_interval text \<noteq> None \<or> re_match rx_every_hour text \<noteq> None
      \<or> re_match rx_every_dow text \<noteq> None \<or> re_match rx_every_day text \<noteq> None
      \<or> re_match rx_every_dows text \<noteq> None \<or> re_match rx_first_day text \<noteq> None)"

text \<open>
  What a scan of the folders \<open>cs\<close> is to yield: the event definition of every folder
  that has a manifest which parses, in the order of the folders.
\<close>

definition valid_folder_events ::
  "(string \<Rightarrow> pyerr + yaml) \<Rightarrow> filesystem \<Rightarrow> path list \<Rightarrow> EventDef list" where
  "valid_folder_events safe_load disk cs =
     concat (map (\<lambda>c. if is_dir disk c \<and> path_exists disk (c @ [''EVENT.md''])
                        then (case parse_event_md safe_load disk c of
                                Inr ev \<Rightarrow> [ev] | Inl e \<Rightarrow> [])
                        else []) cs)"

text \<open>Monday 1 January 2024, 09:00:00 UTC, and times after it.\<close>

definition mon0900 :: datetime where
  "mon0900 = \<lparr>year = 2024, month = 1, day = 1, hour = 9, minute = 0, second = 0, microsecond = 0\<rparr>"

definition at_second :: "int \<Rightarrow> datetime" where
  "at_second k = mon0900\<lparr>second := k\<rparr>"

text \<open>
  Two active events that are due every five seconds: \<open>ev_script\<close> runs the script
  \<^verbatim>\<open>run.py\<close> of its folder, whose \<^verbatim>\<open>handle\<close> raises; \<open>ev_tool\<close> calls the tool
  \<^verbatim>\<open>noop\<close>, which succeeds.
\<close>

definition ex_disk :: filesystem where
  "ex_disk = [([''events''], Dir),
              ([''events'', ''a''], Dir), ([''events'', ''a'', ''run.py''], File ''def handle(p): raise Exception''),
              ([''events'', ''b''], Dir)]"

definition ex_exec :: "path \<Rightarrow> script_module" where
  "ex_exec p = (if p = [''events'', ''a'', ''run.py''] then Handle (\<lambda>params. Inl (HandlerError ''boom''))
                else NoHandle)"

definition ev_script :: EventDef where
  "ev_script = \<lparr> name = ''a'', description = YStr [], event_type = YStr ''scheduled'',
      schedule_raw = YStr ''every 5 seconds'', schedule = Some (Interval 5),
      action = YDict [(YStr ''script'', YStr ''run.py'')], event_dir = [''events'', ''a''],
      active = YBool True, resolved_params = [] \<rparr>"

definition ev_tool :: EventDef where
  "ev_tool = \<lparr> name = ''b'', description = YStr [], event_type = YStr ''scheduled'',
      schedule_raw = YStr ''every 5 seconds'', schedule = Some (Interval 5),
      action = YDict [(YStr ''mcp'', YStr ''noop'')], event_dir = [''events'', ''b''],
      active = YBool True, resolved_params = [] \<rparr>"

definition ex_engine :: AEPEventEngine where
  "ex_engine = (init_engine [''events''] [(''noop'', \<lambda>params. Inr (YDict [(YStr ''status'', YStr ''sent'')]))])
     \<lparr>events := [ev_script, ev_tool]\<rparr>"

text \<open>An active event compiled from \<^verbatim>\<open>every day at 9 AM\<close>, in an application that runs the engine.\<close>

definition ev_cron :: EventDef where
  "ev_cron = \<lparr> name = ''daily'', description = YStr [], event_type = YStr ''scheduled'',
      schedule_raw = YStr ''every day at 9 AM'', schedule = Some (Cron ''0 9 * * *''),
      action = YDict [(YStr ''mcp'', YStr ''noop'')], event_dir = [''events'', ''daily''],
      active = YBool True, resolved_params = [] \<rparr>"

definition ex_app :: app where
  "ex_app = \<lparr> engine = Some ((init_engine [''events'']
                  [(''noop'', \<lambda>params. Inr (YDict [(YStr ''status'', YStr ''sent'')]))])
                  \<lparr>events := [ev_cron]\<rparr>),
              EVENTS_DIR = [''events''],
              files = [([''events''], Dir), ([''events'', ''daily''], Dir),
                       ([''events'', ''daily'', ''EVENT.md''], File ''---'')],
              event_log = [] \<rparr>"

text \<open>The application after one tick of its engine at the time given.\<close>

definition app_tick :: "datetime \<Rightarrow> app \<Rightarrow> app" where
  "app_tick now st =
     (case engine st of None \<Rightarrow> st
      | Some eng \<Rightarrow> st\<lparr>engine := Some (snd (tick (\<lambda>p. NoHandle) (files st) now eng))\<rparr>)"

text \<open>
  Three job folders: the manifest of \<open>bad\<close> has a type and neither action nor script,
  that of \<open>mail\<close> is scheduled every five minutes and calls a tool, that of \<open>nosched\<close>
  is of type scheduled and gives no schedule. \<open>ex_safe_load\<close> is the YAML parser on
  the three headers.
\<close>

definition hdr_bad :: string where
  "hdr_bad = [CHR 0x0A] @ ''type: manual'' @ [CHR 0x0A]"

definition hdr_mail :: string where
  "hdr_mail = [CHR 0x0A] @ ''type: scheduled'' @ [CHR 0x0A] @ ''schedule: every 5 minutes''
     @ [CHR 0x0A] @ ''action: {mcp: mail_send}'' @ [CHR 0x0A]"

definition hdr_nosched :: string where
  "hdr_nosched = [CHR 0x0A] @ ''type: scheduled'' @ [CHR 0x0A] @ ''action: {mcp: mail_send}''
     @ [CHR 0x0A]"

definition ex_safe_load :: "string \<Rightarrow> pyerr + yaml" where
  "ex_safe_load s =
     (if s = hdr_bad then Inr (YDict [(YStr ''type'', YStr ''manual'')])
      else if s = hdr_mail then
        Inr (YDict [(YStr ''type'', YStr ''scheduled''), (YStr ''schedule'', YStr ''every 5 minutes''),
                    (YStr ''action'', YDict [(YStr ''mcp'', YStr ''mail_send'')])])
      else if s = hdr_nosched then
        Inr (YDict [(YStr ''type'', YStr ''scheduled''),
                    (YStr ''action'', YDict [(YStr ''mcp'', YStr ''mail_send'')])])
      else Inl ValueError)"

definition scan_disk :: filesystem where
  "scan_disk = [([''events''], Dir),
                ([''events'', ''nosched''], Dir),
                ([''events'', ''nosched'', ''EVENT.md''], File (''---'' @ hdr_nosched @ ''---'' @ [CHR 0x0A])),
                ([''events'', ''mail''], Dir),
                ([''events'', ''mail'', ''EVENT.md''], File (''---'' @ hdr_mail @ ''---'' @ [CHR 0x0A] @ ''# mail'')),
                ([''events'', ''bad''], Dir),
                ([''events'', ''bad'', ''EVENT.md''], File (''---'' @ hdr_bad @ ''---'' @ [CHR 0x0A])),
                ([''events'', ''README.md''], File ''notes'')]"

text \<open>
  A job folder \<^verbatim>\<open>/events/job\<close> with a reference file, beside a folder
  \<^verbatim>\<open>/events/job2\<close> of another job.
\<close>

definition job_disk :: filesystem where
  "job_disk = [([''events''], Dir), ([''events'', ''job''], Dir),
               ([''events'', ''job'', ''references''], Dir),
               ([''events'', ''job'', ''references'', ''recipients.txt''],
                  File (''# team'' @ [CHR 0x0A] @ ''ann@example.com'' @ [CHR 0x0A, CHR 0x0A]
                        @ ''  bob@example.com  '' @ [CHR 0x0A])),
               ([''events'', ''job'', ''references'', ''body.md''], File ('' Hello '' @ [CHR 0x0A])),
               ([''events'', ''job2''], Dir),
               ([''events'', ''job2'', ''secret.md''], File ''other job'')]"

section \<open>Dispatch errors and the polling loop\<close>

text \<open>
  C1. The claim: every error raised while a due event is dispatched is non-fatal; the
  loop neither stops nor marks the event inactive, and goes on with the next events and
  ticks. The tool branch of \<open>dispatch\<close> catches every error, and a missing script file or
  a missing \<^verbatim>\<open>handle\<close> only returns. An error raised by the \<^verbatim>\<open>handle\<close> of a script is
  not caught: in the engine of the two events \<open>ev_script\<close> and \<open>ev_tool\<close>, both due, the
  tick ends with the error of the first, the second is never evaluated (it has no
  time of last firing), and \<open>run\<close> ends with that error although readings of the clock
  remain.
\<close>

theorem dispatch_script_error_stops_loop:
  "fst (tick ex_exec ex_disk mon0900 ex_engine) = Some (HandlerError ''boom'')
   \<and> last_fired (snd (tick ex_exec ex_disk mon0900 ex_engine)) ''a'' = Some mon0900
   \<and> last_fired (snd (tick ex_exec ex_disk mon0900 ex_engine)) ''b'' = None
   \<and> (case run ex_exec ex_disk None [mon0900, at_second 1, at_second 2, at_second 3] ex_engine of
         Raised e eng \<Rightarrow> e = HandlerError ''boom'' \<and> last_fired eng ''b'' = None
       | _ \<Rightarrow> False)"
  by code_simp

section \<open>Deleting an event\<close>

text \<open>
  C2. The claim: deleting an event removes it from the registry and purges its time of
  last firing and all its cron markers, so that an event created again under the same
  name starts with no history. \<open>delete_event\<close> removes the event and its time of last
  firing, and leaves \<open>cron_fired_this_minute\<close> as it is: after the event \<open>daily\<close> has
  fired at 09:00:00 and has been deleted, its marker of that minute is still set, and
  the same event appended again is not due at 09:00:30, a time its rule matches, while
  on an engine without history it is.
\<close>

theorem delete_keeps_cron_marker:
  "fst (delete_event ''daily'' (app_tick mon0900 ex_app)) = Deleted
   \<and> (case engine (snd (delete_event ''daily'' (app_tick mon0900 ex_app))) of
         None \<Rightarrow> False
       | Some eng \<Rightarrow>
           events eng = [] \<and> last_fired eng ''daily'' = None
           \<and> cron_fired_this_minute eng ''daily:202401010900'' = Some True
           \<and> cron_matches ''0 9 * * *'' (at_second 30) = Inr True
           \<and> map_sum id fst (is_due (append_event ev_cron eng) ev_cron (at_second 30)) = Inr False)
   \<and> map_sum id fst
        (is_due (append_event ev_cron (init_engine [''events''] [])) ev_cron (at_second 30)) = Inr True"
  by code_simp

section \<open>File references in parameters\<close>

text \<open>
  C8. The claim: a parameter naming an existing file inside the folder of the job is
  replaced by the contents of the file, and every other value is passed through
  unchanged. \<open>resolve_value\<close> compares the texts of the two paths: for the job folder
  \<^verbatim>\<open>/events/job\<close> the value \<^verbatim>\<open>../job2/secret.md\<close> names a file of the folder
  \<^verbatim>\<open>/events/job2\<close>, outside the folder of the job, and is replaced by the contents of that
  file; and the value \<^verbatim>\<open>references\<close>, which names a directory of the folder and no file,
  is not passed through: reading it raises.
\<close>

theorem resolve_value_reads_outside_folder:
  "resolve_value job_disk (YStr ''../job2/secret.md'') [''events'', ''job''] = Inr (YStr ''other job'')
   \<and> resolve_value job_disk (YStr ''references'') [''events'', ''job''] = Inl IsADirectoryError"
  by code_simp

section \<open>Due-ness of interval rules\<close>




section \<open>Scanning the job folders\<close>

lemma load_candidate_events:
  "events (load_candidate safe_load disk eng c) = events eng @ valid_folder_events safe_load disk [c]"
  by (simp add: load_candidate_def valid_folder_events_def split: sum.splits)

lemma valid_folder_events_append:
  "valid_folder_events safe_load disk (cs @ ds)
     = valid_folder_events safe_load disk cs @ valid_folder_events safe_load disk ds"
  by (simp add: valid_folder_events_def)

lemma load_candidate_frame:
  "events_root (load_candidate safe_load disk eng c) = events_root eng"
  by (simp add: load_candidate_def split: sum.splits)

lemma foldl_load_candidate:
  "events (foldl (load_candidate safe_load disk) eng cs)
     = events eng @ valid_folder_events safe_load disk cs"
proof (induction cs arbitrary: eng)
  case Nil
  show ?case by (simp add: valid_folder_events_def)
next
  case (Cons c cs)
  have "valid_folder_events safe_load disk (c # cs)
      = valid_folder_events safe_load disk [c] @ valid_folder_events safe_load disk cs"
    using valid_folder_events_append [of safe_load disk "[c]" cs] by simp
  then show ?case by (simp add: Cons.IH load_candidate_events)
qed

text \<open>
  C7. A job folder whose manifest has neither an action nor a script fails to parse
  with a ValueError (the manifest error of the source). The failure stays in that
  folder: \<open>load\<close> leaves the engine as it was for it, and the scan of a directory
  appends the event definition of every folder whose manifest parses, in the sorted
  order of the folders, whatever folders fail between them.
\<close>

theorem load_isolates_bad_manifest:
  assumes "path_exists disk (d @ [''EVENT.md''])"
    and "read_text disk (d @ [''EVENT.md'']) = Inr raw"
    and "startswith raw ''---''"
    and "split_max ''---'' 2 raw = [p0, p1, p2]"
    and "safe_load p1 = Inr (YDict kvs)"
    and "YStr ''action'' \<notin> set (map fst kvs)"
    and "YStr ''script'' \<notin> set (map fst kvs)"
  shows "parse_event_md safe_load disk d = Inl ValueError
       \<and> load_candidate safe_load disk eng d = eng
       \<and> valid_folder_events safe_load disk (cs @ d # ds)
           = valid_folder_events safe_load disk cs @ valid_folder_events safe_load disk ds
       \<and> (is_dir disk (events_root eng) \<longrightarrow>
            (\<exists>eng'. load safe_load disk eng = Inr eng'
               \<and> events eng' = events eng
                   @ valid_folder_events safe_load disk (sort_key last (iterdir disk (events_root eng)))))"
proof -
  have bad: "parse_event_md safe_load disk d = Inl ValueError"
    using assms
    by (cases kvs) (simp_all add: parse_event_md_def Let_def ebind_def py_in_def py_truthy_def)
  have skip: "load_candidate safe_load disk eng d = eng"
    by (simp add: load_candidate_def bad)
  have none: "valid_folder_events safe_load disk [d] = []"
    by (simp add: valid_folder_events_def bad)
  have "valid_folder_events safe_load disk (cs @ d # ds)
      = valid_folder_events safe_load disk cs @ valid_folder_events safe_load disk [d]
          @ valid_folder_events safe_load disk ds"
    using valid_folder_events_append [of safe_load disk cs "[d] @ ds"]
      valid_folder_events_append [of safe_load disk "[d]" ds] by simp
  then have others: "valid_folder_events safe_load disk (cs @ d # ds)
      = valid_folder_events safe_load disk cs @ valid_folder_events safe_load disk ds"
    by (simp add: none)
  have scan: "is_dir disk (events_root eng) \<Longrightarrow>
      (\<exists>eng'. load safe_load disk eng = Inr eng'
         \<and> events eng' = events eng
              @ valid_folder_events safe_load disk (sort_key last (iterdir disk (events_root eng))))"
    by (simp add: load_def foldl_load_candidate)
  show ?thesis using bad skip others scan by blast
qed

theorem load_isolates_bad_manifest_witness:
  "parse_event_md ex_safe_load scan_disk [''events'', ''bad''] = Inl ValueError
   \<and> (\<exists>eng'. load ex_safe_load scan_disk (init_engine [''events''] []) = Inr eng'
         \<and> map name (events eng') = [''mail'', ''nosched''])"
proof -
  let ?raw = "''---'' @ hdr_bad @ ''---'' @ [CHR 0x0A]"
  have h1: "path_exists scan_disk ([''events'', ''bad''] @ [''EVENT.md''])" by code_simp
  have h2: "read_text scan_disk ([''events'', ''bad''] @ [''EVENT.md'']) = Inr ?raw" by code_simp
  have h3: "startswith ?raw ''---''" by code_simp
  have h4: "split_max ''---'' 2 ?raw = [[], hdr_bad, [CHR 0x0A]]" by code_simp
  have h5: "ex_safe_load hdr_bad = Inr (YDict [(YStr ''type'', YStr ''manual'')])"
    by (simp add: ex_safe_load_def)
  have h6: "YStr ''action'' \<notin> set (map fst [(YStr ''type'', YStr ''manual'')])" by simp
  have h7: "YStr ''script'' \<notin> set (map fst [(YStr ''type'', YStr ''manual'')])" by simp
  have r: "is_dir scan_disk (events_root (init_engine [''events''] []))" by code_simp
  have v: "map name (valid_folder_events ex_safe_load scan_disk
             (sort_key last (iterdir scan_disk (events_root (init_engine [''events''] [])))))
           = [''mail'', ''nosched'']" by code_simp
  have e: "events (init_engine [''events''] []) = []" by (simp add: init_engine_def)
  note T = load_isolates_bad_manifest [where disk = scan_disk and d = "[''events'', ''bad'']"
      and raw = ?raw and ?p0.0 = "[]" and ?p1.0 = hdr_bad and ?p2.0 = "[CHR 0x0A]"
      and safe_load = ex_safe_load and kvs = "[(YStr ''type'', YStr ''manual'')]"
      and eng = "init_engine [''events''] []" and cs = "[]" and ds = "[]"]
  show ?thesis using T h1 h2 h3 h4 h5 h6 h7 r v e by auto
qed

section \<open>The schedule key of a manifest\<close>

lemma ebind_Inr_iff: "(ebind r f = Inr y) = (\<exists>x. r = Inr x \<and> f x = Inr y)"
  by (cases r) (simp_all add: ebind_def)

lemma from_header_schedule:
  assumes "from_header disk d kvs = Inr ev"
  shows "(event_type ev \<noteq> YStr ''scheduled'' \<longrightarrow> schedule ev = None)
       \<and> (\<not> py_truthy (schedule_raw ev) \<longrightarrow> schedule ev = None)
       \<and> (event_type ev = YStr ''scheduled'' \<and> py_truthy (schedule_raw ev) \<longrightarrow>
            (\<exists>r. parse (py_str (schedule_raw ev)) = Inr r \<and> schedule ev = Some r))"
  using assms
  by (auto simp: from_header_def Let_def ebind_Inr_iff split: if_splits)

lemma parse_event_md_from_header:
  assumes "parse_event_md safe_load disk d = Inr ev"
  shows "\<exists>kvs. from_header disk d kvs = Inr ev"
  using assms
  by (auto simp: parse_event_md_def Let_def ebind_Inr_iff split: if_splits yaml.splits)

lemma parse_event_md_no_schedule:
  assumes "path_exists disk (d @ [''EVENT.md''])"
    and "read_text disk (d @ [''EVENT.md'']) = Inr raw"
    and "startswith raw ''---''"
    and "split_max ''---'' 2 raw = [p0, p1, p2]"
    and "safe_load p1 = Inr (YDict kvs)"
    and "map_of kvs (YStr ''type'') = Some (YStr ''scheduled'')"
    and "\<not> py_truthy (yget kvs ''schedule'' YNull)"
    and "map_of kvs (YStr ''action'') = Some (YDict act)"
    and "items (yget act ''params'' (YDict [])) = Inr ps"
    and "resolve_params disk d ps = Inr rs"
  shows "\<exists>ev. parse_event_md safe_load disk d = Inr ev \<and> event_type ev = YStr ''scheduled''
           \<and> schedule ev = None"
proof -
  have ne: "kvs \<noteq> []" using assms(6) by auto
  have t: "YStr ''type'' \<in> set (map fst kvs)" using assms(6) by (metis map_of_eq_None_iff option.distinct(1) set_map)
  have a: "YStr ''action'' \<in> set (map fst kvs)" using assms(8) by (metis map_of_eq_None_iff option.distinct(1) set_map)
  have fh: "\<exists>ev. from_header disk d kvs = Inr ev \<and> event_type ev = YStr ''scheduled'' \<and> schedule ev = None"
    using assms(6-10) a
    by (simp add: from_header_def Let_def ebind_def yget_def items_def)
  have "parse_event_md safe_load disk d = from_header disk d kvs"
    using assms(1-5) ne t a
    by (simp add: parse_event_md_def Let_def ebind_def py_in_def py_truthy_def)
  then show ?thesis using fh by simp
qed

text \<open>
  C10, as amended. The schedule key is optional also for a manifest of type scheduled.
  In an event definition that has been loaded, the schedule is compiled exactly when
  the type is scheduled and a non-empty schedule is given, and then it is the rule that
  \<open>parse\<close> returns for the text (a text that does not compile fails the load); a
  manifest of another type keeps its schedule text uncompiled. A manifest of type
  scheduled that gives no schedule loads, with no compiled rule.
\<close>

theorem schedule_optional_for_scheduled:
  "(parse_event_md safe_load disk d = Inr ev \<longrightarrow>
      (event_type ev \<noteq> YStr ''scheduled'' \<longrightarrow> schedule ev = None)
    \<and> (\<not> py_truthy (schedule_raw ev) \<longrightarrow> schedule ev = None)
    \<and> (event_type ev = YStr ''scheduled'' \<and> py_truthy (schedule_raw ev) \<longrightarrow>
         (\<exists>r. parse (py_str (schedule_raw ev)) = Inr r \<and> schedule ev = Some r)))
   \<and> (path_exists disk (d @ [''EVENT.md'']) \<and> read_text disk (d @ [''EVENT.md'']) = Inr raw
        \<and> startswith raw ''---'' \<and> split_max ''---'' 2 raw = [p0, p1, p2]
        \<and> safe_load p1 = Inr (YDict kvs)
        \<and> map_of kvs (YStr ''type'') = Some (YStr ''scheduled'')
        \<and> \<not> py_truthy (yget kvs ''schedule'' YNull)
        \<and> map_of kvs (YStr ''action'') = Some (YDict act)
        \<and> items (yget act ''params'' (YDict [])) = Inr ps
        \<and> resolve_params disk d ps = Inr rs \<longrightarrow>
      (\<exists>ev'. parse_event_md safe_load disk d = Inr ev' \<and> event_type ev' = YStr ''scheduled''
           \<and> schedule ev' = None))"
  using parse_event_md_from_header [of safe_load disk d ev] from_header_schedule [of disk d _ ev]
    parse_event_md_no_schedule [of disk d raw p0 p1 p2 safe_load kvs act ps rs]
  by blast

theorem schedule_optional_for_scheduled_witness:
  "(\<exists>ev. parse_event_md ex_safe_load scan_disk [''events'', ''mail''] = Inr ev
       \<and> schedule ev = Some (Interval 300))
   \<and> (\<exists>ev'. parse_event_md ex_safe_load scan_disk [''events'', ''nosched''] = Inr ev'
       \<and> event_type ev' = YStr ''scheduled'' \<and> schedule ev' = None)"
proof -
  have "case parse_event_md ex_safe_load scan_disk [''events'', ''mail''] of
          Inl e \<Rightarrow> False
        | Inr ev \<Rightarrow> event_type ev = YStr ''scheduled'' \<and> schedule_raw ev = YStr ''every 5 minutes''"
    by code_simp
  then obtain ev where p: "parse_event_md ex_safe_load scan_disk [''events'', ''mail''] = Inr ev"
    and t: "event_type ev = YStr ''scheduled''" and s: "schedule_raw ev = YStr ''every 5 minutes''"
    by (auto split: sum.splits)
  have c: "parse ''every 5 minutes'' = Inr (Interval 300)" by code_simp
  have first: "schedule ev = Some (Interval 300)"
    using schedule_optional_for_scheduled [of ex_safe_load scan_disk "[''events'', ''mail'']" ev] p t s c
    by (auto simp: py_truthy_def py_str_def)
  let ?raw = "''---'' @ hdr_nosched @ ''---'' @ [CHR 0x0A]"
  let ?kvs = "[(YStr ''type'', YStr ''scheduled''),
               (YStr ''action'', YDict [(YStr ''mcp'', YStr ''mail_send'')])]"
  have h1: "path_exists scan_disk ([''events'', ''nosched''] @ [''EVENT.md''])" by code_simp
  have h2: "read_text scan_disk ([''events'', ''nosched''] @ [''EVENT.md'']) = Inr ?raw" by code_simp
  have h3: "startswith ?raw ''---''" by code_simp
  have h4: "split_max ''---'' 2 ?raw = [[], hdr_nosched, [CHR 0x0A]]" by code_simp
  have h5: "ex_safe_load hdr_nosched = Inr (YDict ?kvs)" by code_simp
  have h6: "map_of ?kvs (YStr ''type'') = Some (YStr ''scheduled'')" by simp
  have h7: "\<not> py_truthy (yget ?kvs ''schedule'' YNull)" by (simp add: yget_def py_truthy_def)
  have h8: "map_of ?kvs (YStr ''action'') = Some (YDict [(YStr ''mcp'', YStr ''mail_send'')])" by simp
  have h9: "items (yget [(YStr ''mcp'', YStr ''mail_send'')] ''params'' (YDict [])) = Inr []"
    by (simp add: yget_def items_def)
  have h10: "resolve_params scan_disk [''events'', ''nosched''] [] = Inr []" by simp
  have second: "\<exists>ev'. parse_event_md ex_safe_load scan_disk [''events'', ''nosched''] = Inr ev'
       \<and> event_type ev' = YStr ''scheduled'' \<and> schedule ev' = None"
    using schedule_optional_for_scheduled [of ex_safe_load scan_disk "[''events'', ''nosched'']" _ ?raw
        "[]" hdr_nosched "[CHR 0x0A]" ?kvs "[(YStr ''mcp'', YStr ''mail_send'')]" "[]" "[]"]
      h1 h2 h3 h4 h5 h6 h7 h8 h9 h10
    by blast
  show ?thesis using p first second by blast
qed

text \<open>
  The claim C10 as stated fails: the folder \<open>nosched\<close>, whose manifest is of type
  scheduled and gives no schedule, loads.
\<close>

theorem scheduled_without_schedule_loads:
  "(case parse_event_md ex_safe_load scan_disk [''events'', ''nosched''] of
      Inl e \<Rightarrow> False
    | Inr ev \<Rightarrow> event_type ev = YStr ''scheduled'' \<and> schedule_raw ev = YNull \<and> schedule ev = None)"
  by code_simp

section \<open>Due-ness of cron rules\<close>

lemma of_char_digit_char: "k < 10 \<Longrightarrow> of_char (digit_char k) = 48 + k"
  by (simp add: digit_char_def)

lemma digit_char_inj: "a < 10 \<Longrightarrow> b < 10 \<Longrightarrow> digit_char a = digit_char b \<Longrightarrow> a = b"
proof -
  assume a: "a < 10" and b: "b < 10" and e: "digit_char a = digit_char b"
  have "(of_char (digit_char a) :: nat) = of_char (digit_char b)" using e by simp
  then show "a = b" using a b by (simp add: of_char_digit_char)
qed

lemma show_nat_lt10: "n < 10 \<Longrightarrow> show_nat n = [digit_char n]"
  by (subst show_nat.simps) simp

lemma show_nat_lt100: "10 \<le> n \<Longrightarrow> n < 100 \<Longrightarrow> show_nat n = [digit_char (n div 10), digit_char (n mod 10)]"
  by (subst show_nat.simps) (simp add: show_nat_lt10)

lemma show_nat_lt1000: "100 \<le> n \<Longrightarrow> n < 1000 \<Longrightarrow>
    show_nat n = [digit_char (n div 100), digit_char (n div 10 mod 10), digit_char (n mod 10)]"
  by (subst show_nat.simps) (simp add: show_nat_lt100 div_mult2_eq [symmetric])

lemma show_nat_lt10000: "1000 \<le> n \<Longrightarrow> n < 10000 \<Longrightarrow>
    show_nat n = [digit_char (n div 1000), digit_char (n div 100 mod 10),
                  digit_char (n div 10 mod 10), digit_char (n mod 10)]"
  by (subst show_nat.simps) (simp add: show_nat_lt1000 div_mult2_eq [symmetric])

lemma digit_char_0: "digit_char 0 = CHR ''0''"
  by code_simp

lemma zpad2: "n < 100 \<Longrightarrow> zpad 2 (show_nat n) = [digit_char (n div 10), digit_char (n mod 10)]"
  by (cases "n < 10") (simp_all add: zpad_def show_nat_lt10 show_nat_lt100 digit_char_0)

lemma replicate_small:
  "replicate 3 c = [c, c, c]" "replicate 2 c = [c, c]" "replicate (Suc 0) c = [c]"
  by (simp_all add: numeral_3_eq_3 numeral_2_eq_2)

lemma zpad4: "n < 10000 \<Longrightarrow>
    zpad 4 (show_nat n) = [digit_char (n div 1000), digit_char (n div 100 mod 10),
                           digit_char (n div 10 mod 10), digit_char (n mod 10)]"
proof -
  assume n: "n < 10000"
  consider "n < 10" | "10 \<le> n" "n < 100" | "100 \<le> n" "n < 1000" | "1000 \<le> n" by linarith
  then show ?thesis
  proof cases
    case 1 then show ?thesis by (simp add: zpad_def show_nat_lt10 digit_char_0 replicate_small)
  next
    case 2 then show ?thesis by (simp add: zpad_def show_nat_lt100 digit_char_0 replicate_small)
  next
    case 3 then show ?thesis by (simp add: zpad_def show_nat_lt1000 digit_char_0 replicate_small)
  next
    case 4 then show ?thesis using n by (simp add: zpad_def show_nat_lt10000)
  qed
qed

lemma digit_char_eq_iff: "a < 10 \<Longrightarrow> b < 10 \<Longrightarrow> (digit_char a = digit_char b) = (a = b)"
  using digit_char_inj [of a b] by blast

lemma zpad2_inj: "n < 100 \<Longrightarrow> m < 100 \<Longrightarrow> zpad 2 (show_nat n) = zpad 2 (show_nat m) \<Longrightarrow> n = m"
proof -
  assume n: "n < 100" and m: "m < 100" and e: "zpad 2 (show_nat n) = zpad 2 (show_nat m)"
  have b: "n div 10 < 10" "m div 10 < 10" "n mod 10 < 10" "m mod 10 < 10" using n m by simp_all
  have "digit_char (n div 10) = digit_char (m div 10)" "digit_char (n mod 10) = digit_char (m mod 10)"
    using e n m by (simp_all add: zpad2)
  then have "n div 10 = m div 10" "n mod 10 = m mod 10"
    using b by (simp_all add: digit_char_eq_iff)
  then show "n = m" by (metis div_mult_mod_eq)
qed

lemma zpad4_inj: "n < 10000 \<Longrightarrow> m < 10000 \<Longrightarrow> zpad 4 (show_nat n) = zpad 4 (show_nat m) \<Longrightarrow> n = m"
proof -
  assume n: "n < 10000" and m: "m < 10000" and e: "zpad 4 (show_nat n) = zpad 4 (show_nat m)"
  have b: "n div 1000 < 10" "m div 1000 < 10" "n div 100 mod 10 < 10" "m div 100 mod 10 < 10"
    "n div 10 mod 10 < 10" "m div 10 mod 10 < 10" "n mod 10 < 10" "m mod 10 < 10"
    using n m by simp_all
  have "digit_char (n div 1000) = digit_char (m div 1000)"
    "digit_char (n div 100 mod 10) = digit_char (m div 100 mod 10)"
    "digit_char (n div 10 mod 10) = digit_char (m div 10 mod 10)"
    "digit_char (n mod 10) = digit_char (m mod 10)"
    using e n m by (simp_all add: zpad4)
  then have d: "n div 1000 = m div 1000" "n div 100 mod 10 = m div 100 mod 10"
    "n div 10 mod 10 = m div 10 mod 10" "n mod 10 = m mod 10"
    using b by (simp_all add: digit_char_eq_iff)
  have "n div 100 div 10 = m div 100 div 10" using d(1) by (simp add: div_mult2_eq [symmetric])
  then have h: "n div 100 = m div 100" using d(2) by (metis div_mult_mod_eq)
  have "n div 10 div 10 = m div 10 div 10" using h by (simp add: div_mult2_eq [symmetric])
  then have "n div 10 = m div 10" using d(3) by (metis div_mult_mod_eq)
  then show "n = m" using d(4) by (metis div_mult_mod_eq)
qed

lemma length_zpad2: "n < 100 \<Longrightarrow> length (zpad 2 (show_nat n)) = 2"
  by (simp add: zpad2)

lemma length_zpad4: "n < 10000 \<Longrightarrow> length (zpad 4 (show_nat n)) = 4"
  by (simp add: zpad4)

lemma days_in_month_le: "1 \<le> m \<Longrightarrow> m \<le> 12 \<Longrightarrow> days_in_month y m \<le> 31"
proof -
  assume "1 \<le> m" "m \<le> 12"
  then have "m = 1 \<or> m = 2 \<or> m = 3 \<or> m = 4 \<or> m = 5 \<or> m = 6 \<or> m = 7 \<or> m = 8 \<or> m = 9
      \<or> m = 10 \<or> m = 11 \<or> m = 12" by arith
  then show ?thesis by (auto simp: days_in_month_def)
qed

lemma minute_key_inj:
  assumes "valid_datetime a" and "valid_datetime b"
  shows "(minute_key a = minute_key b)
       = (year a = year b \<and> month a = month b \<and> day a = day b \<and> hour a = hour b
          \<and> minute a = minute b)"
proof
  assume e: "minute_key a = minute_key b"
  have ra: "nat (year a) < 10000" "nat (month a) < 100" "nat (day a) < 100" "nat (hour a) < 100"
    "nat (minute a) < 100" "0 \<le> year a" "0 \<le> month a" "0 \<le> day a" "0 \<le> hour a" "0 \<le> minute a"
    using assms(1) days_in_month_le [of "month a" "year a"] by (auto simp: valid_datetime_def)
  have rb: "nat (year b) < 10000" "nat (month b) < 100" "nat (day b) < 100" "nat (hour b) < 100"
    "nat (minute b) < 100" "0 \<le> year b" "0 \<le> month b" "0 \<le> day b" "0 \<le> hour b" "0 \<le> minute b"
    using assms(2) days_in_month_le [of "month b" "year b"] by (auto simp: valid_datetime_def)
  have "zpad 4 (show_nat (nat (year a))) = zpad 4 (show_nat (nat (year b)))
      \<and> zpad 2 (show_nat (nat (month a))) = zpad 2 (show_nat (nat (month b)))
      \<and> zpad 2 (show_nat (nat (day a))) = zpad 2 (show_nat (nat (day b)))
      \<and> zpad 2 (show_nat (nat (hour a))) = zpad 2 (show_nat (nat (hour b)))
      \<and> zpad 2 (show_nat (nat (minute a))) = zpad 2 (show_nat (nat (minute b)))"
    using e ra(1-5) rb(1-5) by (simp add: minute_key_def length_zpad2 length_zpad4)
  then have "nat (year a) = nat (year b) \<and> nat (month a) = nat (month b) \<and> nat (day a) = nat (day b)
      \<and> nat (hour a) = nat (hour b) \<and> nat (minute a) = nat (minute b)"
    using zpad4_inj [OF ra(1) rb(1)] zpad2_inj [OF ra(2) rb(2)] zpad2_inj [OF ra(3) rb(3)]
      zpad2_inj [OF ra(4) rb(4)] zpad2_inj [OF ra(5) rb(5)] by simp
  then show "year a = year b \<and> month a = month b \<and> day a = day b \<and> hour a = hour b
      \<and> minute a = minute b"
    using ra(6-10) rb(6-10) by (simp add: eq_nat_nat_iff)
next
  assume "year a = year b \<and> month a = month b \<and> day a = day b \<and> hour a = hour b
      \<and> minute a = minute b"
  then show "minute_key a = minute_key b" by (simp add: minute_key_def)
qed

lemma is_due_cron_result:
  assumes "schedule ev = Some (Cron c)" and "is_due eng ev t = Inr (r, eng')"
  shows "(\<not> r \<and> eng' = eng)
       \<or> (r \<and> eng' = eng\<lparr>cron_fired_this_minute :=
               (cron_fired_this_minute eng)(name ev @ '':'' @ minute_key t \<mapsto> True)\<rparr>)"
  using assms
  by (auto simp: is_due_def Let_def ebind_def split: if_splits sum.splits)

lemma is_due_cron_marked:
  assumes "schedule ev = Some (Cron c)"
    and "cron_fired_this_minute eng (name ev @ '':'' @ minute_key t) = Some True"
  shows "is_due eng ev t = Inr (False, eng)"
  using assms by (simp add: is_due_def Let_def)

lemma due_seq_marked:
  assumes "schedule ev = Some (Cron c)" and "\<forall>t \<in> set ts. minute_key t = k"
    and "cron_fired_this_minute eng (name ev @ '':'' @ k) = Some True"
  shows "filter (\<lambda>b. b) (fst (due_seq eng ev ts)) = [] \<and> snd (due_seq eng ev ts) = eng"
  using assms
proof (induction ts)
  case Nil
  then show ?case by simp
next
  case (Cons t ts)
  have "is_due eng ev t = Inr (False, eng)"
    using Cons.prems is_due_cron_marked [of ev c eng t] by simp
  then show ?case using Cons by simp
qed

lemma due_seq_once:
  assumes "schedule ev = Some (Cron c)" and "\<forall>t \<in> set ts. minute_key t = k"
  shows "length (filter (\<lambda>b. b) (fst (due_seq eng ev ts))) \<le> 1"
  using assms
proof (induction ts arbitrary: eng)
  case Nil
  then show ?case by simp
next
  case (Cons t ts)
  have k: "minute_key t = k" and rest: "\<forall>t \<in> set ts. minute_key t = k" using Cons.prems by simp_all
  show ?case
  proof (cases "is_due eng ev t")
    case (Inl e)
    then show ?thesis using Cons.IH [OF Cons.prems(1) rest, of eng] by simp
  next
    case (Inr p)
    obtain r eng1 where p: "p = (r, eng1)" by (cases p)
    show ?thesis
    proof (cases r)
      case False
      then have "eng1 = eng"
        using is_due_cron_result [OF Cons.prems(1), of eng t r eng1] Inr p by simp
      then show ?thesis using Inr p False Cons.IH [OF Cons.prems(1) rest, of eng] by simp
    next
      case True
      then have "eng1 = eng\<lparr>cron_fired_this_minute :=
               (cron_fired_this_minute eng)(name ev @ '':'' @ minute_key t \<mapsto> True)\<rparr>"
        using is_due_cron_result [OF Cons.prems(1), of eng t r eng1] Inr p by simp
      then have "cron_fired_this_minute eng1 (name ev @ '':'' @ k) = Some True" using k by simp
      then have "filter (\<lambda>b. b) (fst (due_seq eng1 ev ts)) = []"
        using due_seq_marked [OF Cons.prems(1) rest] by simp
      then show ?thesis using Inr p True by simp
    qed
  qed
qed

lemma due_seq_other_keys:
  assumes "schedule ev = Some (Cron c)" and "\<forall>t \<in> set ts. minute_key t = k"
    and "key \<noteq> name ev @ '':'' @ k"
  shows "cron_fired_this_minute (snd (due_seq eng ev ts)) key = cron_fired_this_minute eng key"
  using assms
proof (induction ts arbitrary: eng)
  case Nil
  then show ?case by simp
next
  case (Cons t ts)
  have k: "minute_key t = k" and rest: "\<forall>t \<in> set ts. minute_key t = k" using Cons.prems by simp_all
  show ?case
  proof (cases "is_due eng ev t")
    case (Inl e)
    then show ?thesis using Cons.IH [OF Cons.prems(1) rest Cons.prems(3), of eng] by simp
  next
    case (Inr p)
    obtain r eng1 where p: "p = (r, eng1)" by (cases p)
    have "cron_fired_this_minute eng1 key = cron_fired_this_minute eng key"
      using is_due_cron_result [OF Cons.prems(1), of eng t r eng1] Inr p k Cons.prems(3) by auto
    then show ?thesis
      using Inr p Cons.IH [OF Cons.prems(1) rest Cons.prems(3), of eng1] by simp
  qed
qed

text \<open>
  C4. For an event with a cron rule, among the evaluations of its due-ness at times of
  one minute bucket (the key \<^verbatim>\<open>%Y%m%d%H%M\<close> of the time), whatever their number and
  from whatever engine they start, at most one reports the event due. After them, at a
  time of another bucket that the rule matches and in which the event has not been
  reported due yet, the event of type scheduled is reported due again. The buckets are
  the minutes of the clock: two valid timestamps have the same key exactly when they
  agree on year, month, day, hour and minute.
\<close>

theorem cron_once_per_minute:
  assumes "schedule ev = Some (Cron c)" and "\<forall>t \<in> set ts. minute_key t = k"
  shows "length (filter (\<lambda>b. b) (fst (due_seq eng ev ts))) \<le> 1
       \<and> (event_type ev = YStr ''scheduled'' \<and> minute_key t' \<noteq> k
            \<and> cron_fired_this_minute eng (name ev @ '':'' @ minute_key t') \<noteq> Some True
            \<and> cron_matches c t' = Inr True \<longrightarrow>
          (\<exists>eng'. is_due (snd (due_seq eng ev ts)) ev t' = Inr (True, eng')))
       \<and> (valid_datetime a \<and> valid_datetime b \<longrightarrow>
            (minute_key a = minute_key b)
              = (year a = year b \<and> month a = month b \<and> day a = day b \<and> hour a = hour b
                 \<and> minute a = minute b))"
proof -
  have again: "\<exists>eng'. is_due (snd (due_seq eng ev ts)) ev t' = Inr (True, eng')"
    if h: "event_type ev = YStr ''scheduled''" "minute_key t' \<noteq> k"
      "cron_fired_this_minute eng (name ev @ '':'' @ minute_key t') \<noteq> Some True"
      "cron_matches c t' = Inr True"
  proof -
    have "name ev @ '':'' @ minute_key t' \<noteq> name ev @ '':'' @ k" using h(2) by simp
    then have "cron_fired_this_minute (snd (due_seq eng ev ts)) (name ev @ '':'' @ minute_key t')
        = cron_fired_this_minute eng (name ev @ '':'' @ minute_key t')"
      using due_seq_other_keys [OF assms] by simp
    then show ?thesis using h assms(1) by (simp add: is_due_def Let_def ebind_def)
  qed
  show ?thesis
    using due_seq_once [OF assms] again minute_key_inj [of a b] by blast
qed

theorem cron_once_per_minute_witness:
  "length (filter (\<lambda>b. b)
      (fst (due_seq (init_engine [''events''] []) ev_cron [mon0900, at_second 1, at_second 30]))) \<le> 1
   \<and> (\<exists>eng'. is_due (snd (due_seq (init_engine [''events''] []) ev_cron
                            [mon0900, at_second 1, at_second 30])) ev_cron (mon0900\<lparr>day := 2\<rparr>)
          = Inr (True, eng'))
   \<and> (minute_key mon0900 = minute_key (at_second 30))
   \<and> minute_key mon0900 \<noteq> minute_key (mon0900\<lparr>minute := 1\<rparr>)"
proof -
  let ?E = "init_engine [''events''] []"
  let ?ts = "[mon0900, at_second 1, at_second 30]"
  let ?t' = "mon0900\<lparr>day := 2\<rparr>"
  have h1: "schedule ev_cron = Some (Cron ''0 9 * * *'')" by (simp add: ev_cron_def)
  have h2: "\<forall>t \<in> set ?ts. minute_key t = ''202401010900''" by code_simp
  have h3: "event_type ev_cron = YStr ''scheduled''" by (simp add: ev_cron_def)
  have h4: "minute_key ?t' \<noteq> ''202401010900''" by code_simp
  have h5: "cron_fired_this_minute ?E (name ev_cron @ '':'' @ minute_key ?t') \<noteq> Some True"
    by (simp add: init_engine_def)
  have h6: "cron_matches ''0 9 * * *'' ?t' = Inr True" by code_simp
  have v1: "valid_datetime mon0900" by code_simp
  have v2: "valid_datetime (at_second 30)" by code_simp
  have v3: "valid_datetime (mon0900\<lparr>minute := 1\<rparr>)" by code_simp
  have f: "year mon0900 = year (at_second 30) \<and> month mon0900 = month (at_second 30)
      \<and> day mon0900 = day (at_second 30) \<and> hour mon0900 = hour (at_second 30)
      \<and> minute mon0900 = minute (at_second 30)" by (simp add: at_second_def)
  have g: "minute mon0900 \<noteq> minute (mon0900\<lparr>minute := 1\<rparr>)" by (simp add: mon0900_def)
  show ?thesis
    using cron_once_per_minute [OF h1 h2, of ?E ?t' mon0900 "at_second 30"]
      cron_once_per_minute [OF h1 h2, of ?E ?t' mon0900 "mon0900\<lparr>minute := 1\<rparr>"]
      h3 h4 h5 h6 v1 v2 v3 f g
    by blast
qed

section \<open>The seconds of a compiled interval rule\<close>

lemma re_match_Some_mem: "re_match p s = Some v \<Longrightarrow> \<exists>r. (v, r) \<in> set (p s)"
  by (cases "p s") (auto simp: re_match_def)

lemma rx_then_mem:
  "((v, r) \<in> set (rx_then p f s)) = (\<exists>a r1. (a, r1) \<in> set (p s) \<and> (v, r) \<in> set (f a r1))"
  by (auto simp: rx_then_def)

lemma rx_ret_mem: "((v, r) \<in> set (rx_ret x s)) = (v = x \<and> r = s)"
  by (auto simp: rx_ret_def)

lemma take_le_takeWhile: "k \<le> length (takeWhile P s) \<Longrightarrow> \<forall>c \<in> set (take k s). P c"
proof (induction s arbitrary: k)
  case Nil
  then show ?case by simp
next
  case (Cons x xs)
  show ?case
  proof (cases k)
    case 0
    then show ?thesis by simp
  next
    case (Suc j)
    then have "P x" "j \<le> length (takeWhile P xs)" using Cons.prems by (auto split: if_splits)
    then show ?thesis using Cons.IH [of j] Suc by simp
  qed
qed

lemma rx_rep_mem:
  assumes "(a, r) \<in> set (rx_rep P lo hi s)"
  shows "lo \<le> length a \<and> (\<forall>c \<in> set a. P c) \<and> s = a @ r"
proof -
  define n where "n = length (takeWhile P s)"
  define m where "m = (case hi of None \<Rightarrow> n | Some h \<Rightarrow> min h n)"
  have mn: "m \<le> n" by (cases hi) (simp_all add: m_def)
  have "(a, r) \<in> set (map (\<lambda>k. (take k s, drop k s)) (rev [lo ..< Suc m]))"
    using assms unfolding rx_rep_def Let_def m_def n_def .
  then obtain k where k: "lo \<le> k" "k \<le> m" and a: "a = take k s" and r: "r = drop k s"
    by auto
  have kn: "k \<le> length (takeWhile P s)" using k(2) mn by (simp add: n_def)
  have "k \<le> length s" using kn length_takeWhile_le [of P s] by linarith
  then have "length a = k" using a by simp
  then show ?thesis using k a r take_le_takeWhile [OF kn] by simp
qed

lemma rx_interval_digits:
  assumes "re_match rx_interval t = Some (n, u)"
  shows "n \<noteq> [] \<and> (\<forall>c \<in> set n. is_digit c)"
proof -
  obtain r where "((n, u), r) \<in> set (rx_interval t)" using re_match_Some_mem [OF assms] by blast
  then obtain s2 s3 where "(n, s3) \<in> set (rx_rep is_digit 1 None s2)"
    by (auto simp: rx_interval_def rx_then_mem rx_ret_mem)
  then have "1 \<le> length n \<and> (\<forall>c \<in> set n. is_digit c)" using rx_rep_mem by blast
  then show ?thesis by auto
qed

lemma is_digit_not_space: "is_digit c \<Longrightarrow> \<not> is_space c"
  by (auto simp: is_digit_def is_space_def)

lemma is_digit_not_sign: "is_digit c \<Longrightarrow> c \<noteq> CHR ''-'' \<and> c \<noteq> CHR ''+'' \<and> c \<noteq> CHR ''_''"
  by (auto simp: is_digit_def)

lemma dropWhile_hd: "xs \<noteq> [] \<Longrightarrow> \<not> P (hd xs) \<Longrightarrow> dropWhile P xs = xs"
  by (cases xs) simp_all

lemma strip_id: "s \<noteq> [] \<Longrightarrow> \<not> is_space (hd s) \<Longrightarrow> \<not> is_space (last s) \<Longrightarrow> strip s = s"
proof -
  assume s: "s \<noteq> []" and h: "\<not> is_space (hd s)" and l: "\<not> is_space (last s)"
  have 1: "dropWhile is_space s = s" using s h by (rule dropWhile_hd)
  have "rev s \<noteq> []" "\<not> is_space (hd (rev s))" using s l by (simp_all add: hd_rev)
  then have 2: "dropWhile is_space (rev s) = rev s" by (rule dropWhile_hd)
  show ?thesis by (simp add: strip_def 1 2)
qed

lemma int_body_digits: "\<forall>c \<in> set ds. is_digit c \<Longrightarrow> int_body ds a = Some (foldl (\<lambda>a c. a * 10 + digit_val c) a ds)"
  by (induction ds arbitrary: a) simp_all

lemma py_int_digits:
  assumes "ds \<noteq> []" and "\<forall>c \<in> set ds. is_digit c"
  shows "py_int ds = Inr (int (digits_val ds))"
proof -
  obtain c cs where ds: "ds = c # cs" using assms(1) by (cases ds) auto
  have c: "is_digit c" using assms(2) ds by simp
  have "is_digit (last ds)" using assms by (simp add: ds)
  then have st: "strip ds = ds" using strip_id [of ds] c ds is_digit_not_space by simp
  have "int_unsigned ds = Inr (int (digits_val ds))"
    using c int_body_digits [OF assms(2), of 0] by (simp add: int_unsigned_def ds digits_val_def)
  then show ?thesis using st c is_digit_not_sign [OF c] by (simp add: py_int_def ds)
qed

lemma unit_seconds_cases:
  "dict_get [(''second'', 1), (''minute'', 60), (''hour'', 3600)] x = Inr k \<Longrightarrow> k \<in> {1, 60, 3600::int}"
  by (auto simp: dict_get_def split: if_splits)

lemma cron_results_not_interval:
  "every_dow_result g1 \<noteq> Inr (Interval s)" "every_day_result g2 \<noteq> Inr (Interval s)"
  "every_dows_result g1 \<noteq> Inr (Interval s)" "first_day_result g2 \<noteq> Inr (Interval s)"
  by (auto simp: every_dow_result_def every_day_result_def every_dows_result_def
      first_day_result_def ebind_Inr_iff split: prod.splits)

text \<open>
  C9, as amended. The seconds of an interval rule that \<open>parse\<close> returns are a
  non-negative integer: either 3600, or the number \<open>N\<close> that the digits of the text
  denote times 1, 60 or 3600. They are positive exactly when \<open>N\<close> is not zero.
\<close>

theorem interval_seconds_nonnegative:
  assumes "parse text = Inr (Interval s)"
  shows "0 \<le> s
       \<and> (s = 3600
          \<or> (\<exists>n u k. re_match rx_interval (prepare text) = Some (n, u) \<and> n \<noteq> []
                \<and> (\<forall>c \<in> set n. is_digit c) \<and> k \<in> {1, 60, 3600} \<and> s = int (digits_val n) * k))"
proof (cases "re_match rx_interval (prepare text)")
  case None
  then have "s = 3600"
    using assms cron_results_not_interval [of _ s]
    by (auto simp: parse_def Let_def split: if_splits option.splits)
  then show ?thesis by simp
next
  case (Some g)
  obtain n u where g: "g = (n, u)" by (cases g)
  have d: "n \<noteq> []" "\<forall>c \<in> set n. is_digit c" using rx_interval_digits Some g by blast+
  have "interval_result (n, u) = Inr (Interval s)"
    using assms Some g by (simp add: parse_def Let_def)
  then obtain k where k: "k \<in> {1, 60, 3600::int}" and s: "s = int (digits_val n) * k"
    using py_int_digits [OF d] unit_seconds_cases
    by (auto simp: interval_result_def ebind_Inr_iff)
  have "0 \<le> s" using k s by auto
  then show ?thesis using Some g d k s by blast
qed

theorem interval_seconds_nonnegative_witness:
  "parse ''every 5 minutes'' = Inr (Interval 300) \<and> (0::int) \<le> 300
   \<and> (\<exists>n u k. re_match rx_interval (prepare ''every 5 minutes'') = Some (n, u) \<and> n \<noteq> []
         \<and> (\<forall>c \<in> set n. is_digit c) \<and> k \<in> {1, 60, 3600} \<and> 300 = int (digits_val n) * k)"
proof -
  have p: "parse ''every 5 minutes'' = Inr (Interval 300)" by code_simp
  show ?thesis using interval_seconds_nonnegative [OF p] p by simp
qed

text \<open>
  The claim C9 as stated fails: \<^verbatim>\<open>every 0 seconds\<close> compiles to an interval rule
  of zero seconds.
\<close>

theorem zero_interval_counterexample:
  "parse ''every 0 seconds'' = Inr (Interval 0) \<and> \<not> (0 < (0::int))"
  by code_simp

end
